theory Spec2Isabelle
  imports Complex_Main "HOL-Library.AList"
begin

section \<open>Python strings\<close>

text \<open>
  A Python \<open>str\<close> is a sequence of Unicode code points, so a string is a list of
  natural numbers. \<open>py ''abc''\<close> is the string of an ASCII literal.
\<close>

type_synonym pystr = "nat list"

abbreviation py :: "string \<Rightarrow> pystr" where
  "py s \<equiv> map of_char s"

text \<open>
  The code points that \<open>str.strip()\<close> removes: those for which \<open>str.isspace\<close> holds
  (tab to carriage return, the four separators U+001C to U+001F, space, U+0085, U+00A0,
  U+1680, U+2000 to U+200A, U+2028, U+2029, U+202F, U+205F, U+3000).
\<close>

definition py_isspace :: "nat \<Rightarrow> bool" where
  "py_isspace c \<longleftrightarrow>
     (9 \<le> c \<and> c \<le> 13) \<or> (28 \<le> c \<and> c \<le> 32) \<or> c = 133 \<or> c = 160 \<or> c = 5760 \<or>
     (8192 \<le> c \<and> c \<le> 8202) \<or> c = 8232 \<or> c = 8233 \<or> c = 8239 \<or> c = 8287 \<or> c = 12288"

definition py_strip :: "pystr \<Rightarrow> pystr" where
  "py_strip s = rev (dropWhile py_isspace (rev (dropWhile py_isspace s)))"

definition py_startswith :: "pystr \<Rightarrow> pystr \<Rightarrow> bool" where
  "py_startswith s p \<longleftrightarrow> take (length p) s = p"

text \<open>\<open>sub in s\<close>: \<open>sub\<close> occurs in \<open>s\<close> as a contiguous run.\<close>

fun py_contains :: "pystr \<Rightarrow> pystr \<Rightarrow> bool" where
  "py_contains sub [] = (sub = [])"
| "py_contains sub (c # cs) = (py_startswith (c # cs) sub \<or> py_contains sub cs)"

text \<open>\<open>s.split('=', 1)\<close> on a string that contains \<open>=\<close>: the text before the first
  \<open>=\<close> and the text after it.\<close>

definition py_split1_eq :: "pystr \<Rightarrow> pystr \<times> pystr" where
  "py_split1_eq s = (takeWhile (\<lambda>c. c \<noteq> 61) s, tl (dropWhile (\<lambda>c. c \<noteq> 61) s))"

text \<open>\<open>s.split(sep)\<close> for a separator \<open>sep\<close> of one character: the pieces between
  the separators; a string without one is a single piece, and a trailing separator gives
  a last empty piece.\<close>

fun py_split :: "nat \<Rightarrow> pystr \<Rightarrow> pystr list" where
  "py_split sep [] = [[]]"
| "py_split sep (c # cs) =
     (if c = sep then [] # py_split sep cs
      else (case py_split sep cs of [] \<Rightarrow> [[c]] | l # ls \<Rightarrow> (c # l) # ls))"

section \<open>Text files\<close>

text \<open>
  Both scripts open files with \<open>open(path, 'r', encoding='utf-8')\<close>: text mode with
  universal newlines, where \<open>\r\n\<close> and a lone \<open>\r\<close> are read as \<open>\n\<close>. A file is
  modelled by its decoded text; a missing file by \<open>None\<close>.
\<close>

fun universal_newlines :: "pystr \<Rightarrow> pystr" where
  "universal_newlines [] = []"
| "universal_newlines [c] = [if c = 13 then 10 else c]"
| "universal_newlines (c # d # ds) =
     (if c = 13 \<and> d = 10 then 10 # universal_newlines ds
      else if c = 13 then 10 # universal_newlines (d # ds)
      else c # universal_newlines (d # ds))"

text \<open>\<open>for line in f\<close>: each line keeps its terminating line feed; the last line may
  have none.\<close>

fun file_lines :: "pystr \<Rightarrow> pystr list" where
  "file_lines [] = []"
| "file_lines (c # cs) =
     (if c = 10 then [10] # file_lines cs
      else (case file_lines cs of [] \<Rightarrow> [[c]] | l # ls \<Rightarrow> (c # l) # ls))"

definition read_lines :: "pystr \<Rightarrow> pystr list" where
  "read_lines content = file_lines (universal_newlines content)"

section \<open>The \<open>.env\<close> parser\<close>

text \<open>
  A \<open>dict\<close> is an association list in insertion order; \<open>config[k] = v\<close> is
  \<open>AList.update\<close>, which replaces the value of a key that is present and appends a new
  key otherwise. \<open>map_of\<close> is the lookup.

  The body of the loop of \<open>read_env_file\<close>, the same in \<open>test_places_api.py\<close> and
  \<open>analyze_sms_config.py\<close>:
  \<^verbatim>\<open>
    line = line.strip()
    if line and not line.startswith('#') and '=' in line:
        key, value = line.split('=', 1)
        config[key.strip()] = value.strip()
  \<close>
\<close>

type_synonym config = "(pystr \<times> pystr) list"

definition env_line :: "config \<Rightarrow> pystr \<Rightarrow> config" where
  "env_line config line0 =
     (let line = py_strip line0 in
      if line \<noteq> [] \<and> \<not> py_startswith line (py ''#'') \<and> py_contains (py ''='') line
      then (case py_split1_eq line of
              (key, value) \<Rightarrow> AList.update (py_strip key) (py_strip value) config)
      else config)"

definition parse_env :: "pystr \<Rightarrow> config" where
  "parse_env content = foldl env_line [] (read_lines content)"

text \<open>\<open>test_places_api.read_env_file\<close>: a missing file is caught
  (\<open>FileNotFoundError\<close>) and gives the empty dict.\<close>

definition read_env_file_places :: "pystr option \<Rightarrow> config" where
  "read_env_file_places file =
     (case file of None \<Rightarrow> [] | Some content \<Rightarrow> parse_env content)"

section \<open>JSON values, exceptions and console output\<close>

text \<open>
  What \<open>json.loads\<close> returns. A float is a finite rational, an infinity or a NaN
  (\<open>json.loads\<close> accepts \<open>Infinity\<close> and \<open>NaN\<close>); a JSON object is a \<open>dict\<close>, an
  association list read with \<open>map_of\<close> (a dict has each key once, so its list has
  distinct keys). Python's \<open>None\<close> is \<open>JNull\<close>.
\<close>

datatype pyfloat = Finite rat | PosInf | NegInf | NaN

datatype json =
    JNull
  | JBool bool
  | JInt int
  | JFloat pyfloat
  | JStr pystr
  | JArr "json list"
  | JObj "(pystr \<times> json) list"

text \<open>The truth value Python gives an object in \<open>if x\<close>, \<open>not x\<close> and \<open>x or y\<close>.\<close>

fun truthy :: "json \<Rightarrow> bool" where
  "truthy JNull = False"
| "truthy (JBool b) = b"
| "truthy (JInt n) = (n \<noteq> 0)"
| "truthy (JFloat f) = (f \<noteq> Finite 0)"
| "truthy (JStr s) = (s \<noteq> [])"
| "truthy (JArr xs) = (xs \<noteq> [])"
| "truthy (JObj kvs) = (kvs \<noteq> [])"

text \<open>\<open>a or b\<close>: \<open>a\<close> when it is true, else \<open>b\<close>.\<close>

definition py_or :: "json \<Rightarrow> json \<Rightarrow> json" where
  "py_or a b = (if truthy a then a else b)"

text \<open>\<open>d.get(k, default)\<close> on a dict.\<close>

definition get_default :: "(pystr \<times> json) list \<Rightarrow> pystr \<Rightarrow> json \<Rightarrow> json" where
  "get_default d k dflt = (case map_of d k of Some v \<Rightarrow> v | None \<Rightarrow> dflt)"

text \<open>\<open>x == n\<close> for an \<open>int\<close> constant \<open>n\<close>: numbers compare by value (\<open>2 == 2.0\<close>,
  \<open>True == 1\<close>), everything else is unequal.\<close>

fun py_eq_int :: "json \<Rightarrow> int \<Rightarrow> bool" where
  "py_eq_int (JInt m) n = (m = n)"
| "py_eq_int (JFloat (Finite r)) n = (r = of_int n)"
| "py_eq_int (JBool b) n = ((if b then 1 else 0) = n)"
| "py_eq_int _ n = False"

datatype exit_arg = ExitNone | ExitInt int | ExitStr string

text \<open>
  The exceptions the scripts meet. \<open>KeyboardInterrupt\<close> and \<open>SystemExit\<close> derive from
  \<open>BaseException\<close> only; every other one is an \<open>Exception\<close>. \<open>SliceError\<close> is what
  slicing a dict raises (a \<open>TypeError\<close> before Python 3.12, a \<open>KeyError\<close> from it on).
  \<open>HTTPError\<close> is \<open>urllib.error.HTTPError\<close>, with the status of the response.
\<close>

datatype exn =
    KeyboardInterrupt
  | SystemExit exit_arg
  | AttributeError
  | TypeError
  | SliceError
  | JSONDecodeError
  | UnicodeDecodeError
  | ConnectionError
  | Timeout
  | HTTPError int
  | OtherException string

fun is_Exception :: "exn \<Rightarrow> bool" where
  "is_Exception KeyboardInterrupt = False"
| "is_Exception (SystemExit a) = False"
| "is_Exception e = True"

text \<open>
  One \<open>print\<close> call is one event: the helper that printed it (\<open>print_success\<close> is
  \<open>OK\<close>, \<open>print_error\<close> is \<open>ERROR\<close>, \<open>print_warning\<close> is \<open>WARN\<close>, \<open>print_info\<close> is
  \<open>INFO\<close>, \<open>print_header\<close> is \<open>HEADER\<close>, a bare \<open>print\<close> is \<open>PLAIN\<close>), the text of
  the source's format string, and the values it interpolates, in order.
  \<open>Traceback\<close> is \<open>traceback.print_exc()\<close>.
\<close>

datatype level = PLAIN | OK | ERROR | WARN | INFO | HEADER

datatype arg =
    AStr pystr
  | AInt int
  | ANat nat
  | AJson json
  | AJsons "json list"
  | AExn exn
  | AFmt string "arg list"

datatype event = Print level string "arg list" | Traceback exn

text \<open>A computation that prints and may raise: the events printed, then the exception
  or the value.\<close>

type_synonym 'a io = "event list \<times> (exn + 'a)"

definition io_return :: "'a \<Rightarrow> 'a io" where
  "io_return x = ([], Inr x)"

definition io_raise :: "exn \<Rightarrow> 'a io" where
  "io_raise e = ([], Inl e)"

definition io_print :: "level \<Rightarrow> string \<Rightarrow> arg list \<Rightarrow> unit io" where
  "io_print l t as = ([Print l t as], Inr ())"

definition io_bind :: "'a io \<Rightarrow> ('a \<Rightarrow> 'b io) \<Rightarrow> 'b io" where
  "io_bind m f =
     (case m of
        (out, Inl e) \<Rightarrow> (out, Inl e)
      | (out, Inr x) \<Rightarrow> (case f x of (out', r) \<Rightarrow> (out @ out', r)))"

definition io_seq :: "unit io \<Rightarrow> 'b io \<Rightarrow> 'b io" where
  "io_seq m k = io_bind m (\<lambda>_. k)"

text \<open>A \<open>for\<close> loop over a list whose body may raise.\<close>

fun io_each :: "('a \<Rightarrow> unit io) \<Rightarrow> 'a list \<Rightarrow> unit io" where
  "io_each f [] = io_return ()"
| "io_each f (x # xs) = io_seq (f x) (io_each f xs)"

text \<open>\<open>len(x)\<close> and \<open>for y in x\<close> on a decoded JSON value: a string iterates over its
  characters, a dict over its keys, and \<open>None\<close>, booleans and numbers raise.\<close>

fun py_len :: "json \<Rightarrow> exn + nat" where
  "py_len (JArr xs) = Inr (length xs)"
| "py_len (JStr s) = Inr (length s)"
| "py_len (JObj kvs) = Inr (length kvs)"
| "py_len _ = Inl TypeError"

fun py_iter :: "json \<Rightarrow> exn + json list" where
  "py_iter (JArr xs) = Inr xs"
| "py_iter (JStr s) = Inr (map (\<lambda>c. JStr [c]) s)"
| "py_iter (JObj kvs) = Inr (map (\<lambda>kv. JStr (fst kv)) kvs)"
| "py_iter _ = Inl TypeError"

text \<open>
  How the interpreter ends the process when the script's top level finishes with no
  exception (\<open>None\<close>) or lets one escape: \<open>SystemExit\<close> gives the exit status (an
  integer is the status, \<open>None\<close> is 0, a string is printed on standard error with status
  1); any other exception is a crash, a traceback and a status that is not 0.
\<close>

datatype process_end = Exited int "string option" | Crashed exn

fun interpreter :: "exn option \<Rightarrow> process_end" where
  "interpreter None = Exited 0 None"
| "interpreter (Some (SystemExit ExitNone)) = Exited 0 None"
| "interpreter (Some (SystemExit (ExitInt n))) = Exited n None"
| "interpreter (Some (SystemExit (ExitStr s))) = Exited 1 (Some s)"
| "interpreter (Some e) = Crashed e"

section \<open>\<open>test_places_api.py\<close>\<close>

text \<open>
  \<^verbatim>\<open>
  def resolve_api_key(cli_key, env_path):
      if cli_key:
          return cli_key
      if os.getenv('GOOGLE_MAPS_API_KEY'):
          return os.getenv('GOOGLE_MAPS_API_KEY')
      env = read_env_file(env_path)
      key = env.get('GOOGLE_MAPS_API_KEY')
      if not key:
          raise SystemExit('GOOGLE_MAPS_API_KEY not found. ...')
      return key
  \<close>
  \<open>cli_key\<close> is the \<open>--key\<close> argument (\<open>None\<close> when not given), \<open>getenv\<close> the value of
  the process environment variable (\<open>None\<close> when unset), \<open>file\<close> the text of the file at
  \<open>env_path\<close>. The equations are tried in order, as the \<open>if\<close>s are: a string passes
  \<open>if s\<close> when it is not empty.
\<close>

definition key_not_found :: string where
  "key_not_found = ''GOOGLE_MAPS_API_KEY not found. Provide --key, set env var, or put it in .env''"

fun resolve_api_key :: "pystr option \<Rightarrow> pystr option \<Rightarrow> pystr option \<Rightarrow> exn + pystr" where
  "resolve_api_key (Some (c # cs)) getenv file = Inr (c # cs)"
| "resolve_api_key cli_key (Some (e # es)) file = Inr (e # es)"
| "resolve_api_key cli_key getenv file =
     (case map_of (read_env_file_places file) (py ''GOOGLE_MAPS_API_KEY'') of
        Some (k # ks) \<Rightarrow> Inr (k # ks)
      | _ \<Rightarrow> Inl (SystemExit (ExitStr key_not_found)))"

text \<open>
  What the network does with the one request: the request fails with an exception (no
  connection, a timeout), or the server answers, after the redirections \<open>urlopen\<close>
  follows, with a status and a body, whose bytes decode as UTF-8 to a text or do not
  (\<open>None\<close>). \<open>urllib.request.urlopen\<close> returns the response only when its status is
  from 200 to 299; for every other status it raises \<open>HTTPError\<close>.
\<close>

datatype urlopen_outcome = Responds int "pystr option" | Raises exn

text \<open>
  \<open>http_get\<close> and \<open>http_post_json\<close> have the same body after the request is built;
  \<open>loads\<close> is \<open>json.loads\<close>, \<open>None\<close> where it raises \<open>JSONDecodeError\<close>. Neither
  function catches what \<open>urlopen\<close> or \<open>decode\<close> raises.
  \<^verbatim>\<open>
  with urllib.request.urlopen(req, timeout=10) as resp:
      status = resp.getcode()
      body = resp.read().decode('utf-8')
      try:
          data = json.loads(body)
      except json.JSONDecodeError:
          data = {'raw': body}
      return status, data
  \<close>
\<close>

definition read_response :: "(pystr \<Rightarrow> json option) \<Rightarrow> urlopen_outcome \<Rightarrow> exn + int \<times> json" where
  "read_response loads outcome =
     (case outcome of
        Raises e \<Rightarrow> Inl e
      | Responds status bytes \<Rightarrow>
          if 200 \<le> status \<and> status < 300 then
            (case bytes of
               None \<Rightarrow> Inl UnicodeDecodeError
             | Some body \<Rightarrow>
                 Inr (status, case loads body of
                                Some data \<Rightarrow> data
                              | None \<Rightarrow> JObj [(py ''raw'', JStr body)]))
          else Inl (HTTPError status))"

definition http_get :: "(pystr \<Rightarrow> json option) \<Rightarrow> urlopen_outcome \<Rightarrow> exn + int \<times> json" where
  "http_get loads outcome = read_response loads outcome"

definition http_post_json :: "(pystr \<Rightarrow> json option) \<Rightarrow> urlopen_outcome \<Rightarrow> exn + int \<times> json" where
  "http_post_json loads outcome = read_response loads outcome"

text \<open>
  The item list of \<open>summarize\<close>, for \<open>data\<close> a dict:
  \<^verbatim>\<open>
      if 'predictions' in data:
          items = data.get('predictions', [])
      elif 'results' in data:
          items = data.get('results', [])
      elif isinstance(data.get('data'), dict):
          d = data['data']
          items = d.get('predictions') or d.get('results') or []
      else:
          items = []
  \<close>
\<close>

definition extract_items :: "(pystr \<times> json) list \<Rightarrow> json" where
  "extract_items data =
     (if map_of data (py ''predictions'') \<noteq> None then get_default data (py ''predictions'') (JArr [])
      else if map_of data (py ''results'') \<noteq> None then get_default data (py ''results'') (JArr [])
      else (case map_of data (py ''data'') of
              Some (JObj d) \<Rightarrow>
                py_or (get_default d (py ''predictions'') JNull)
                  (py_or (get_default d (py ''results'') JNull) (JArr []))
            | _ \<Rightarrow> JArr []))"

text \<open>\<open>items[:5]\<close>: the first five elements of a list or characters of a string; a dict
  cannot be sliced.\<close>

fun first_five :: "json \<Rightarrow> exn + json list" where
  "first_five (JArr xs) = Inr (take 5 xs)"
| "first_five (JStr s) = Inr (map (\<lambda>c. JStr [c]) (take 5 s))"
| "first_five (JObj kvs) = Inl SliceError"
| "first_five _ = Inl TypeError"

text \<open>
  One line of the listing; \<open>i\<close> is the index \<open>enumerate\<close> gives.
  \<^verbatim>\<open>
      desc = item.get('description') or f"{item.get('mainText','')} - {item.get('secondaryText','')}"
      print(f'{i+1}. {desc} | placeId={item.get("place_id") or item.get("placeId")}')
  \<close>
\<close>

fun show_item :: "nat \<times> json \<Rightarrow> unit io" where
  "show_item (i, JObj item) =
     (let description = get_default item (py ''description'') JNull;
          desc = (if truthy description then AJson description
                  else AFmt ''{mainText} - {secondaryText}''
                         [AJson (get_default item (py ''mainText'') (JStr [])),
                          AJson (get_default item (py ''secondaryText'') (JStr []))]);
          place = py_or (get_default item (py ''place_id'') JNull)
                        (get_default item (py ''placeId'') JNull)
      in io_print PLAIN ''{i+1}. {desc} | placeId={place_id or placeId}'' [ANat (i + 1), desc, AJson place])"
| "show_item (i, other) = io_raise AttributeError"

text \<open>
  \<open>summarize(title, status, data)\<close>, for whatever \<open>json.loads\<close> returned: on a list or a
  string \<open>'predictions' in data\<close> is a membership test and the \<open>data.get\<close> that follows
  it, on either branch, raises \<open>AttributeError\<close>; on \<open>None\<close>, a boolean or a number the
  membership test raises \<open>TypeError\<close>.
\<close>

definition summarize :: "pystr \<Rightarrow> int \<Rightarrow> json \<Rightarrow> unit io" where
  "summarize title status data =
     io_seq (io_print PLAIN ''\<newline>=== {title} ==='' [AStr title])
    (io_seq (io_print PLAIN ''Status: {status}'' [AInt status])
     (case data of
        JObj d \<Rightarrow>
          (let items = extract_items d in
           io_bind ([], py_len items) (\<lambda>n.
           io_seq (io_print PLAIN ''Items: {len(items)}'' [ANat n])
          (io_bind ([], first_five items) (\<lambda>shown.
           io_each show_item (enumerate 0 shown)))))
      | JArr xs \<Rightarrow> io_raise AttributeError
      | JStr s \<Rightarrow> io_raise AttributeError
      | _ \<Rightarrow> io_raise TypeError))"

text \<open>
  \<^verbatim>\<open>
  def parse_location(loc):
      try:
          lat_str, lng_str = loc.split(',')
          return float(lat_str), float(lng_str)
      except Exception:
          raise SystemExit('Invalid --location format. ...')
  \<close>
  \<open>py_float\<close> is \<open>float\<close> on a string, \<open>None\<close> where it raises \<open>ValueError\<close>.
\<close>

definition invalid_location :: string where
  \<open>invalid_location = ''Invalid --location format. Use "lat,lng" e.g. 14.5995,120.9842''\<close>

definition parse_location :: "(pystr \<Rightarrow> pyfloat option) \<Rightarrow> pystr \<Rightarrow> exn + pyfloat \<times> pyfloat" where
  "parse_location py_float loc =
     (case py_split 44 loc of
        [lat_str, lng_str] \<Rightarrow>
          (case py_float lat_str of
             None \<Rightarrow> Inl (SystemExit (ExitStr invalid_location))
           | Some lat \<Rightarrow>
               (case py_float lng_str of
                  None \<Rightarrow> Inl (SystemExit (ExitStr invalid_location))
                | Some lng \<Rightarrow> Inr (lat, lng)))
      | _ \<Rightarrow> Inl (SystemExit (ExitStr invalid_location)))"

text \<open>
  The four requests of the tester. Each \<open>do_...\<close> function builds its URL or payload
  from strings and numbers, prints it, and returns what \<open>http_get\<close> or \<open>http_post_json\<close>
  returns; \<open>urlopen\<close> tells what the network does with each request.
\<close>

datatype endpoint = GoogleAutocomplete | GoogleTextsearch | BackendAutocomplete | BackendTextsearch

definition do_google_autocomplete ::
  "(pystr \<Rightarrow> json option) \<Rightarrow> (endpoint \<Rightarrow> urlopen_outcome) \<Rightarrow> (int \<times> json) io" where
  "do_google_autocomplete loads urlopen =
     io_seq (io_print PLAIN ''GET {url}'' []) ([], http_get loads (urlopen GoogleAutocomplete))"

definition do_google_textsearch ::
  "(pystr \<Rightarrow> json option) \<Rightarrow> (endpoint \<Rightarrow> urlopen_outcome) \<Rightarrow> (int \<times> json) io" where
  "do_google_textsearch loads urlopen =
     io_seq (io_print PLAIN ''GET {url}'' []) ([], http_get loads (urlopen GoogleTextsearch))"

definition do_backend_autocomplete ::
  "(pystr \<Rightarrow> json option) \<Rightarrow> (endpoint \<Rightarrow> urlopen_outcome) \<Rightarrow> (int \<times> json) io" where
  "do_backend_autocomplete loads urlopen =
     io_seq (io_print PLAIN ''POST {url} payload={payload}'' [])
            ([], http_post_json loads (urlopen BackendAutocomplete))"

definition do_backend_textsearch ::
  "(pystr \<Rightarrow> json option) \<Rightarrow> (endpoint \<Rightarrow> urlopen_outcome) \<Rightarrow> (int \<times> json) io" where
  "do_backend_textsearch loads urlopen =
     io_seq (io_print PLAIN ''POST {url} payload={payload}'' [])
            ([], http_post_json loads (urlopen BackendTextsearch))"

text \<open>
  The parsed command line (\<open>--mode\<close> is one of three choices) and what the script reads
  from outside: \<open>float\<close>, \<open>json.loads\<close>, the files by path, the environment variable
  \<open>GOOGLE_MAPS_API_KEY\<close> and the network.
\<close>

datatype mode = Autocomplete | Textsearch | Both

record args =
  arg_mode :: mode
  arg_key :: "pystr option"
  arg_env :: pystr
  arg_backend :: "pystr option"
  arg_location :: pystr

record world =
  w_float :: "pystr \<Rightarrow> pyfloat option"
  w_loads :: "pystr \<Rightarrow> json option"
  w_files :: "pystr \<Rightarrow> pystr option"
  w_getenv :: "pystr option"
  w_urlopen :: "endpoint \<Rightarrow> urlopen_outcome"

text \<open>
  \<open>main()\<close> after \<open>parse_args\<close>:
  \<^verbatim>\<open>
      lat, lng = parse_location(args.location)
      if args.backend:
          if args.mode in ('autocomplete', 'both'):
              s, d = do_backend_autocomplete(...)
              summarize('Backend Autocomplete', s, d)
          if args.mode in ('textsearch', 'both'):
              s, d = do_backend_textsearch(...)
              summarize('Backend TextSearch', s, d)
      else:
          key = resolve_api_key(args.key, args.env)
          if args.mode in ('autocomplete', 'both'): ...
          if args.mode in ('textsearch', 'both'): ...
  \<close>
  No call is inside a \<open>try\<close>.
\<close>

definition places_main :: "world \<Rightarrow> args \<Rightarrow> unit io" where
  "places_main w a =
     io_bind ([], parse_location (w_float w) (arg_location a)) (\<lambda>lat_lng.
       if arg_backend a \<noteq> None \<and> arg_backend a \<noteq> Some [] then
         io_seq
           (if arg_mode a = Autocomplete \<or> arg_mode a = Both then
              io_bind (do_backend_autocomplete (w_loads w) (w_urlopen w)) (\<lambda>sd.
                summarize (py ''Backend Autocomplete'') (fst sd) (snd sd))
            else io_return ())
           (if arg_mode a = Textsearch \<or> arg_mode a = Both then
              io_bind (do_backend_textsearch (w_loads w) (w_urlopen w)) (\<lambda>sd.
                summarize (py ''Backend TextSearch'') (fst sd) (snd sd))
            else io_return ())
       else
         io_bind ([], resolve_api_key (arg_key a) (w_getenv w) (w_files w (arg_env a))) (\<lambda>api_key.
         io_seq
           (if arg_mode a = Autocomplete \<or> arg_mode a = Both then
              io_bind (do_google_autocomplete (w_loads w) (w_urlopen w)) (\<lambda>sd.
                summarize (py ''Google Autocomplete'') (fst sd) (snd sd))
            else io_return ())
           (if arg_mode a = Textsearch \<or> arg_mode a = Both then
              io_bind (do_google_textsearch (w_loads w) (w_urlopen w)) (\<lambda>sd.
                summarize (py ''Google TextSearch'') (fst sd) (snd sd))
            else io_return ())))"

text \<open>
  The entry point is \<open>if __name__ == '__main__': main()\<close> with no handler around it:
  whatever \<open>main\<close> raises reaches the interpreter. \<open>main_raised\<close> is the exception that
  escaped \<open>main\<close>, \<open>None\<close> when it returned.
\<close>

definition places_entry :: "exn option \<Rightarrow> event list \<times> process_end" where
  "places_entry main_raised = ([], interpreter main_raised)"

text \<open>A run of the script: what it prints and how the process ends.\<close>

definition places_run :: "world \<Rightarrow> args \<Rightarrow> event list \<times> process_end" where
  "places_run w a =
     (case places_main w a of
        (out, Inl e) \<Rightarrow> (out @ fst (places_entry (Some e)), snd (places_entry (Some e)))
      | (out, Inr u) \<Rightarrow> (out @ fst (places_entry None), snd (places_entry None)))"

section \<open>\<open>test_sms_api.py\<close>\<close>

definition DEFAULT_DEVICE :: int where
  "DEFAULT_DEVICE = 2"

definition DEFAULT_SIM_SLOT :: int where
  "DEFAULT_SIM_SLOT = 1"

text \<open>What \<open>requests.post\<close> does: it raises, or it gives a response with its
  \<open>status_code\<close> and \<open>text\<close>. \<open>response.json()\<close> is \<open>loads\<close> of the text.\<close>

datatype post_outcome = Response int pystr | PostRaises exn

text \<open>
  The two blocks \<open>if sim1: ...\<close> and \<open>if sim2: ...\<close> of the device loop: the heading is
  printed, then \<open>sim.get\<close> raises on a true value that is not a dict.
\<close>

definition show_sim :: "string \<Rightarrow> json \<Rightarrow> unit io" where
  "show_sim heading sim =
     (if truthy sim then
        io_seq (io_print PLAIN heading [])
          (case sim of
             JObj s \<Rightarrow>
               io_seq (io_print PLAIN ''  Number: {sim.get(number, N/A)}''
                         [AJson (get_default s (py ''number'') (JStr (py ''N/A'')))])
                      (io_print PLAIN ''  Operator: {sim.get(operator, N/A)}''
                         [AJson (get_default s (py ''operator'') (JStr (py ''N/A'')))])
           | _ \<Rightarrow> io_raise AttributeError)
      else io_return ())"

text \<open>The body of \<open>for device in devices\<close>; \<open>device.get\<close> raises on an element that
  is not a dict, after the separator line is printed.\<close>

fun show_device :: "json \<Rightarrow> unit io" where
  "show_device (JObj device) =
     io_seq (io_print PLAIN ''\<newline>{=*40}'' [])
    (io_seq (io_print PLAIN ''Device ID: {device.get(id)}'' [AJson (get_default device (py ''id'') JNull)])
    (io_seq (io_print PLAIN ''Name: {device.get(name)}'' [AJson (get_default device (py ''name'') JNull)])
    (io_seq (io_print PLAIN ''Model: {device.get(model)}'' [AJson (get_default device (py ''model'') JNull)])
    (io_seq (io_print PLAIN ''Enabled: {device.get(enabled)}'' [AJson (get_default device (py ''enabled'') JNull)])
    (io_seq (io_print PLAIN ''Priority: {device.get(priority)}'' [AJson (get_default device (py ''priority'') JNull)])
    (io_seq (show_sim ''\<newline>SIM Slot 0 (First SIM):'' (get_default device (py ''sim1'') (JObj [])))
            (show_sim ''\<newline>SIM Slot 1 (Second SIM):'' (get_default device (py ''sim2'') (JObj [])))))))))"
| "show_device other = io_seq (io_print PLAIN ''\<newline>{=*40}'' []) (io_raise AttributeError)"

text \<open>\<open>d.get('id')\<close> on a list element.\<close>

fun get_id :: "json \<Rightarrow> exn + json" where
  "get_id (JObj d) = Inr (get_default d (py ''id'') JNull)"
| "get_id other = Inl AttributeError"

text \<open>\<open>device_ids = [d.get('id') for d in devices]\<close>\<close>

fun device_ids_of :: "json list \<Rightarrow> exn + json list" where
  "device_ids_of [] = Inr []"
| "device_ids_of (d # ds) =
     (case get_id d of
        Inl e \<Rightarrow> Inl e
      | Inr i \<Rightarrow> (case device_ids_of ds of Inl e \<Rightarrow> Inl e | Inr is \<Rightarrow> Inr (i # is)))"

text \<open>\<open>next((d for d in devices if d.get('id') == DEFAULT_DEVICE), None)\<close>\<close>

fun next_device :: "int \<Rightarrow> json list \<Rightarrow> exn + json option" where
  "next_device device [] = Inr None"
| "next_device device (d # ds) =
     (case get_id d of
        Inl e \<Rightarrow> Inl e
      | Inr i \<Rightarrow> if py_eq_int i device then Inr (Some d) else next_device device ds)"

text \<open>The two lines printed for the SIM of the configured slot.\<close>

definition show_configured_sim :: "json \<Rightarrow> unit io" where
  "show_configured_sim sim =
     (case sim of
        JObj s \<Rightarrow>
          io_seq (io_print PLAIN ''  SIM Number: {sim.get(number, N/A)}''
                    [AJson (get_default s (py ''number'') (JStr (py ''N/A'')))])
                 (io_print PLAIN ''  SIM Operator: {sim.get(operator, N/A)}''
                    [AJson (get_default s (py ''operator'') (JStr (py ''N/A'')))])
      | _ \<Rightarrow> io_raise AttributeError)"

text \<open>
  The block under \<open>if target_device:\<close>, for the configured device \<open>device\<close> and SIM slot
  \<open>slot\<close> (the module constants \<open>DEFAULT_DEVICE\<close> and \<open>DEFAULT_SIM_SLOT\<close>):
  \<^verbatim>\<open>
      if DEFAULT_SIM_SLOT == 0 and target_device.get('sim1'):
          sim = target_device.get('sim1') ...
      elif DEFAULT_SIM_SLOT == 1 and target_device.get('sim2'):
          sim = target_device.get('sim2') ...
      else:
          print_error(f"SIM Slot {DEFAULT_SIM_SLOT} not found on this device!")
  \<close>
\<close>

definition check_sim_slot :: "int \<Rightarrow> int \<Rightarrow> json \<Rightarrow> unit io" where
  "check_sim_slot device slot target_device =
     (if truthy target_device then
        io_seq (io_print PLAIN ''\<newline>Your configured device:'' [])
       (io_seq (io_print PLAIN ''  Device ID: {DEFAULT_DEVICE}'' [AInt device])
       (io_seq (io_print PLAIN ''  SIM Slot: {DEFAULT_SIM_SLOT} (0=First, 1=Second)'' [AInt slot])
         (case target_device of
            JObj t \<Rightarrow>
              if slot = 0 \<and> truthy (get_default t (py ''sim1'') JNull)
              then show_configured_sim (get_default t (py ''sim1'') JNull)
              else if slot = 1 \<and> truthy (get_default t (py ''sim2'') JNull)
              then show_configured_sim (get_default t (py ''sim2'') JNull)
              else io_print ERROR ''SIM Slot {DEFAULT_SIM_SLOT} not found on this device!'' [AInt slot]
          | _ \<Rightarrow> if slot = 0 \<or> slot = 1 then io_raise AttributeError
                 else io_print ERROR ''SIM Slot {DEFAULT_SIM_SLOT} not found on this device!'' [AInt slot])))
      else io_return ())"

text \<open>
  The configuration check of \<open>test_get_devices\<close> (from \<open>print("CONFIGURATION CHECK:")\<close>
  to the \<open>return devices\<close>), on the elements of the retrieved device list.
\<close>

definition configuration_check :: "int \<Rightarrow> int \<Rightarrow> json list \<Rightarrow> unit io" where
  "configuration_check device slot devices =
     io_seq (io_print PLAIN ''\<newline>{=*60}'' [])
    (io_seq (io_print PLAIN ''CONFIGURATION CHECK:'' [])
    (io_bind ([], device_ids_of devices) (\<lambda>device_ids.
       if list_ex (\<lambda>i. py_eq_int i device) device_ids
       then io_seq (io_print OK ''Device ID {DEFAULT_DEVICE} EXISTS in the SMS server!'' [AInt device])
           (io_bind ([], next_device device devices) (\<lambda>target_device.
              case target_device of
                Some t \<Rightarrow> check_sim_slot device slot t
              | None \<Rightarrow> io_return ()))
       else io_seq (io_print ERROR ''Device ID {DEFAULT_DEVICE} NOT FOUND!'' [AInt device])
                   (io_print PLAIN ''Available device IDs: {device_ids}'' [AJsons device_ids]))))"

text \<open>The \<open>try\<close> body of \<open>test_get_devices\<close>; the value is what the function returns
  (\<open>None\<close> or the devices).\<close>

definition get_devices_body :: "(pystr \<Rightarrow> json option) \<Rightarrow> post_outcome \<Rightarrow> json option io" where
  "get_devices_body loads outcome =
     io_seq (io_print INFO ''Requesting: {url}'' [])
    (io_seq (io_print INFO ''API Key: {API_KEY[:15]}...{API_KEY[-10:]}'' [])
     (case outcome of
        PostRaises e \<Rightarrow> io_raise e
      | Response status_code text \<Rightarrow>
          io_seq (io_print INFO ''Response Status: {response.status_code}'' [AInt status_code])
           (if status_code = 200 then
              (case loads text of
                 None \<Rightarrow> io_raise JSONDecodeError
               | Some (JObj data) \<Rightarrow>
                   if truthy (get_default data (py ''success'') JNull) then
                     io_seq (io_print OK ''Successfully retrieved devices!'' [])
                       (case get_default data (py ''data'') (JObj []) of
                          JObj dd \<Rightarrow>
                            (let devices = get_default dd (py ''devices'') (JArr []) in
                             io_bind ([], py_len devices) (\<lambda>n.
                             io_seq (io_print PLAIN ''\<newline>Total Devices: {len(devices)}'' [ANat n])
                            (io_bind ([], py_iter devices) (\<lambda>ds.
                             io_seq (io_each show_device ds)
                            (io_seq (configuration_check DEFAULT_DEVICE DEFAULT_SIM_SLOT ds)
                                    (io_return (Some devices)))))))
                        | _ \<Rightarrow> io_raise AttributeError)
                   else
                     io_seq (io_print ERROR ''API Error: {data.get(error, Unknown error)}''
                               [AJson (get_default data (py ''error'') (JStr (py ''Unknown error'')))])
                            (io_return None)
               | Some other \<Rightarrow> io_raise AttributeError)
            else
              io_seq (io_print ERROR ''HTTP Error: {response.status_code}'' [AInt status_code])
             (io_seq (io_print PLAIN ''Response: {response.text[:500]}'' [AStr (take 500 text)])
                     (io_return None)))))"

text \<open>
  The handlers of \<open>test_get_devices\<close>: \<open>ConnectionError\<close>, \<open>Timeout\<close>, then
  \<open>except Exception\<close>; each prints and returns \<open>None\<close>. An exception that is not an
  \<open>Exception\<close> passes through.
\<close>

definition get_devices_handlers :: "exn \<Rightarrow> json option io" where
  "get_devices_handlers e =
     (if e = ConnectionError then
        io_seq (io_print ERROR ''Connection failed to: {SERVER}'' [])
       (io_seq (io_print ERROR ''Make sure you have internet access and the SMS server is online'' [])
               (io_return None))
      else if e = Timeout then
        io_seq (io_print ERROR ''Request timed out (15 seconds)'' []) (io_return None)
      else if is_Exception e then
        io_seq (io_print ERROR ''Unexpected error: {str(e)}'' [AExn e]) (io_return None)
      else io_raise e)"

definition test_get_devices :: "(pystr \<Rightarrow> json option) \<Rightarrow> post_outcome \<Rightarrow> json option io" where
  "test_get_devices loads outcome =
     io_seq (io_print HEADER ''TEST 1: GET AVAILABLE DEVICES'' [])
       (case get_devices_body loads outcome of
          (out, Inl e) \<Rightarrow> (case get_devices_handlers e of (out', r) \<Rightarrow> (out @ out', r))
        | (out, Inr r) \<Rightarrow> (out, Inr r))"

text \<open>
  The entry point: \<open>main()\<close> inside \<open>try\<close>, \<open>except KeyboardInterrupt\<close> (a notice and
  \<open>sys.exit(0)\<close>), \<open>except Exception\<close> (the error, the traceback and \<open>sys.exit(1)\<close>).
  \<open>sys.exit(n)\<close> raises \<open>SystemExit(n)\<close>, which reaches the interpreter.
\<close>

definition sms_tester_entry :: "exn option \<Rightarrow> event list \<times> process_end" where
  "sms_tester_entry main_raised =
     (case main_raised of
        None \<Rightarrow> ([], interpreter None)
      | Some KeyboardInterrupt \<Rightarrow>
          ([Print PLAIN ''\<newline>\<newline>Test interrupted by user'' []],
           interpreter (Some (SystemExit (ExitInt 0))))
      | Some e \<Rightarrow>
          if is_Exception e then
            ([Print ERROR ''Unexpected error: {str(e)}'' [AExn e], Traceback e],
             interpreter (Some (SystemExit (ExitInt 1))))
          else ([], interpreter (Some e)))"

section \<open>\<open>analyze_sms_config.py\<close>\<close>

text \<open>
  \<open>read_env_file(env_path)\<close> of the analyzer: a missing file is reported and gives
  \<open>None\<close>; a file that is there is parsed by the same loop.
\<close>

definition read_env_file_analyzer :: "pystr \<Rightarrow> pystr option \<Rightarrow> event list \<times> config option" where
  "read_env_file_analyzer env_path file =
     (case file of
        None \<Rightarrow> ([Print ERROR ''.env file not found at: {env_path}'' [AStr env_path]], None)
      | Some content \<Rightarrow> ([], Some (parse_env content)))"

definition NOT_SET :: pystr where
  "NOT_SET = py ''NOT SET''"

text \<open>\<open>config.get(k, 'NOT SET')\<close>\<close>

definition config_get :: "config \<Rightarrow> pystr \<Rightarrow> pystr" where
  "config_get config k = (case map_of config k of Some v \<Rightarrow> v | None \<Rightarrow> NOT_SET)"

text \<open>
  One line of the listing of \<open>sms_config\<close>:
  \<^verbatim>\<open>
      if 'API_KEY' in key and value != 'NOT SET':
          masked_value = value[:10] + '...' + value[-4:] if len(value) > 14 else '***'
          print(f"   {key}: {masked_value}")
      else:
          print(f"   {key}: {value}")
  \<close>
\<close>

definition show_variable :: "pystr \<times> pystr \<Rightarrow> event" where
  "show_variable kv =
     (case kv of (key, value) \<Rightarrow>
        if py_contains (py ''API_KEY'') key \<and> value \<noteq> NOT_SET
        then Print PLAIN ''   {key}: {masked_value}''
               [AStr key,
                AStr (if length value > 14
                      then take 10 value @ py ''...'' @ drop (length value - 4) value
                      else py ''***'')]
        else Print PLAIN ''   {key}: {value}'' [AStr key, AStr value])"

text \<open>The warning printed for a variable of \<open>sms_config\<close> that is \<open>'NOT SET'\<close>.\<close>

definition warn_not_set :: "config \<Rightarrow> pystr \<Rightarrow> string \<Rightarrow> event list" where
  "warn_not_set sms_config k message =
     (if map_of sms_config k = Some NOT_SET then [Print WARN message []] else [])"

text \<open>
  \<open>analyze_sms_configuration()\<close>, given the text of \<open>./.env\<close>: \<open>if not config\<close> holds
  for \<open>None\<close> and for the empty dict.
\<close>

definition analyze_sms_configuration :: "pystr option \<Rightarrow> event list \<times> config option" where
  "analyze_sms_configuration file =
     (case read_env_file_analyzer (py ''.env'') file of (out, config) \<Rightarrow>
        (case config of
           Some (kv # kvs) \<Rightarrow>
             (let sms_config =
                    map (\<lambda>k. (k, config_get (kv # kvs) k))
                      [py ''SMS_SERVER_URL'', py ''SMS_API_KEY'', py ''SMS_DEFAULT_DEVICE'',
                       py ''SMS_DEFAULT_SIM_SLOT'', py ''SMS_ENABLE_NOTIFICATIONS''];
                  warnings =
                    warn_not_set sms_config (py ''SMS_SERVER_URL'') ''SMS_SERVER_URL is not set'' @
                    warn_not_set sms_config (py ''SMS_API_KEY'') ''SMS_API_KEY is not set'' @
                    warn_not_set sms_config (py ''SMS_DEFAULT_DEVICE'')
                      ''SMS_DEFAULT_DEVICE is not set (hardcoded to 2 in smsService.js)'' @
                    warn_not_set sms_config (py ''SMS_DEFAULT_SIM_SLOT'')
                      ''SMS_DEFAULT_SIM_SLOT is not set (hardcoded to 1 in smsService.js)''
              in ([Print HEADER ''SMS CONFIGURATION ANALYSIS'' []] @ out @
                  [Print INFO ''Environment Variables:'' []] @
                  map show_variable sms_config @
                  [Print PLAIN ''\<newline>Configuration Issues:'' []] @
                  warnings @
                  (if warnings = [] then [Print OK ''All required variables are set'' []] else []),
                  Some sms_config))
         | _ \<Rightarrow>
             ([Print HEADER ''SMS CONFIGURATION ANALYSIS'' []] @ out @
              [Print ERROR ''Failed to read .env file'' []],
              None)))"

text \<open>A string literal of the scanned JavaScript, with its single quotes: \<open>'1|1'\<close>.\<close>

definition quoted :: "string \<Rightarrow> pystr" where
  "quoted s = 39 # py s @ [39]"

text \<open>
  The two tests of the first loop of \<open>check_sms_service_code\<close>:
  \<^verbatim>\<open>
      if "devices:" in line and ("'1|1'" in line or "'2|2'" in line or "'0|0'" in line):
      if "devices:" in line and "${this.defaultDevice}" in line:
  \<close>
\<close>

definition hardcoded :: "pystr \<Rightarrow> bool" where
  "hardcoded line \<longleftrightarrow>
     py_contains (py ''devices:'') line \<and>
     (py_contains (quoted ''1|1'') line \<or> py_contains (quoted ''2|2'') line \<or>
      py_contains (quoted ''0|0'') line)"

definition templated :: "pystr \<Rightarrow> bool" where
  "templated line \<longleftrightarrow>
     py_contains (py ''devices:'') line \<and> py_contains (py ''${this.defaultDevice}'') line"

text \<open>An element of \<open>issues\<close>: the dict with the keys \<open>line\<close>, \<open>issue\<close> and \<open>fix\<close>
  (\<open>the_fix\<close> here).\<close>

record issue =
  line_no :: nat
  issue :: string
  the_fix :: string

text \<open>The first loop: what one line prints and what it appends to \<open>issues\<close>.\<close>

definition scan_line :: "nat \<times> pystr \<Rightarrow> event list \<times> issue list" where
  "scan_line il =
     (case il of (i, line) \<Rightarrow>
        ((if hardcoded line
          then [Print ERROR ''Line {i}: Hardcoded device ID found!'' [ANat i],
                Print PLAIN ''   {line.strip()}'' [AStr (py_strip line)]]
          else []) @
         (if templated line
          then [Print OK ''Line {i}: Correctly using environment variables'' [ANat i]]
          else []),
         (if hardcoded line
          then [\<lparr>line_no = i, issue = ''Hardcoded device ID'',
                 the_fix = ''Use environment variables: devices: `${this.defaultDevice}|${this.defaultSimSlot}`''\<rparr>]
          else [])))"

definition scan_lines :: "pystr list \<Rightarrow> event list \<times> issue list" where
  "scan_lines lines =
     (let rs = map scan_line (enumerate 1 lines)
      in (concat (map fst rs), concat (map snd rs)))"

text \<open>The second loop: the lines that load the two variables from the environment.\<close>

definition loads_device :: "pystr \<Rightarrow> bool" where
  "loads_device line \<longleftrightarrow>
     py_contains (py ''this.defaultDevice'') line \<and>
     py_contains (py ''process.env.SMS_DEFAULT_DEVICE'') line"

definition loads_sim_slot :: "pystr \<Rightarrow> bool" where
  "loads_sim_slot line \<longleftrightarrow>
     py_contains (py ''this.defaultSimSlot'') line \<and>
     py_contains (py ''process.env.SMS_DEFAULT_SIM_SLOT'') line"

definition env_line_events :: "nat \<times> pystr \<Rightarrow> event list" where
  "env_line_events il =
     (case il of (i, line) \<Rightarrow>
        (if loads_device line
         then [Print OK ''Line {i}: SMS_DEFAULT_DEVICE is loaded from environment'' [ANat i]]
         else []) @
        (if loads_sim_slot line
         then [Print OK ''Line {i}: SMS_DEFAULT_SIM_SLOT is loaded from environment'' [ANat i]]
         else []))"

definition show_issue :: "issue \<Rightarrow> event list" where
  "show_issue x =
     [Print PLAIN ''\<newline>  Line {issue[line]}: {issue[issue]}'' [ANat (line_no x), AFmt (issue x) []],
      Print PLAIN ''  Fix: {issue[fix]}'' [AFmt (the_fix x) []]]"

text \<open>
  \<open>check_sms_service_code()\<close>, given the text of \<open>src/services/smsService.js\<close>
  (\<open>None\<close> when the file is not there): the events printed and the list returned.
\<close>

definition check_sms_service_code :: "pystr option \<Rightarrow> event list \<times> issue list" where
  "check_sms_service_code file =
     (case file of
        None \<Rightarrow>
          ([Print HEADER ''SMS SERVICE CODE ANALYSIS'' [],
            Print ERROR ''smsService.js not found at: {service_file}'' []], [])
      | Some content \<Rightarrow>
          (let lines = py_split 10 (universal_newlines content);
               (found, issues) = scan_lines lines;
               env_vars_loaded = list_ex loads_device lines
           in ([Print HEADER ''SMS SERVICE CODE ANALYSIS'' [],
                Print INFO ''Analyzing smsService.js for hardcoded values...'' []] @
               found @
               concat (map env_line_events (enumerate 1 lines)) @
               (if \<not> env_vars_loaded
                then [Print WARN ''Could not verify environment variable loading'' []] else []) @
               (if issues \<noteq> []
                then Print PLAIN ''\<newline>Found {len(issues)} issue(s)'' [ANat (length issues)] #
                     concat (map show_issue issues)
                else [Print OK ''Code looks good - using environment variables!'' []]),
               issues)))"

text \<open>The entry point of the analyzer, as in \<open>test_sms_api.py\<close> but for the texts.\<close>

definition analyzer_entry :: "exn option \<Rightarrow> event list \<times> process_end" where
  "analyzer_entry main_raised =
     (case main_raised of
        None \<Rightarrow> ([], interpreter None)
      | Some KeyboardInterrupt \<Rightarrow>
          ([Print PLAIN ''\<newline>\<newline>Analysis interrupted by user'' []],
           interpreter (Some (SystemExit (ExitInt 0))))
      | Some e \<Rightarrow>
          if is_Exception e then
            ([Print PLAIN ''[ERROR] Unexpected error: {str(e)}'' [AExn e], Traceback e],
             interpreter (Some (SystemExit (ExitInt 1))))
          else ([], interpreter (Some e)))"

section \<open>The specification's vocabulary\<close>

text \<open>
  The rule in the specification's words: a line is significant when, stripped, it is not
  empty, does not start with \<open>#\<close> (code point 35) and contains \<open>=\<close> (code point 61);
  it is split at the first \<open>=\<close>, and the key and the value are the stripped halves.
  \<open>spec_env_entry line k v\<close>: the line is significant and contributes \<open>k\<close> with \<open>v\<close>.
\<close>

definition spec_env_entry :: "pystr \<Rightarrow> pystr \<Rightarrow> pystr \<Rightarrow> bool" where
  "spec_env_entry line k v \<longleftrightarrow>
     (\<exists>a b. py_strip line = a @ 61 # b \<and> 61 \<notin> set a \<and> hd (py_strip line) \<noteq> 35 \<and>
            k = py_strip a \<and> v = py_strip b)"

text \<open>The specification's words: a line contains a substring; a line is flagged when
  it contains \<open>devices:\<close> and one of the three quoted pairs; it is recognised as
  correct when it contains \<open>devices:\<close> and \<open>${this.defaultDevice}\<close>.\<close>

definition spec_occurs :: "pystr \<Rightarrow> pystr \<Rightarrow> bool" where
  "spec_occurs sub line \<longleftrightarrow> (\<exists>before after. line = before @ sub @ after)"

definition spec_hardcoded :: "pystr \<Rightarrow> bool" where
  "spec_hardcoded line \<longleftrightarrow>
     spec_occurs (py ''devices:'') line \<and>
     (spec_occurs (quoted ''1|1'') line \<or> spec_occurs (quoted ''2|2'') line \<or>
      spec_occurs (quoted ''0|0'') line)"

definition spec_templated :: "pystr \<Rightarrow> bool" where
  "spec_templated line \<longleftrightarrow>
     spec_occurs (py ''devices:'') line \<and> spec_occurs (py ''${this.defaultDevice}'') line"

text \<open>The specification's words: an entry of the device list has the id \<open>n\<close> (its
  \<open>id\<close> equals \<open>n\<close> as Python compares); a SIM is present on an entry (the key holds a
  value that is true, so not an empty descriptor).\<close>

definition spec_has_id :: "json \<Rightarrow> int \<Rightarrow> bool" where
  "spec_has_id d n \<longleftrightarrow> (\<exists>entry. d = JObj entry \<and> py_eq_int (get_default entry (py ''id'') JNull) n)"

definition spec_sim_present :: "(pystr \<times> json) list \<Rightarrow> pystr \<Rightarrow> bool" where
  "spec_sim_present entry k \<longleftrightarrow> (\<exists>sim. map_of entry k = Some sim \<and> truthy sim)"

section \<open>The \<open>.env\<close> parsing rule\<close>

lemma py_startswith_iff: "py_startswith s p \<longleftrightarrow> (\<exists>post. s = p @ post)"
  unfolding py_startswith_def
  by (metis append_eq_conv_conj append_take_drop_id)

lemma py_contains_iff: "py_contains sub s \<longleftrightarrow> (\<exists>pre post. s = pre @ sub @ post)"
proof (induction s)
  case Nil
  then show ?case by auto
next
  case (Cons c cs)
  show ?case
  proof
    assume "py_contains sub (c # cs)"
    then consider "py_startswith (c # cs) sub" | "py_contains sub cs" by auto
    then show "\<exists>pre post. c # cs = pre @ sub @ post"
    proof cases
      case 1
      then obtain post where "c # cs = sub @ post" by (auto simp: py_startswith_iff)
      then have "c # cs = [] @ sub @ post" by simp
      then show ?thesis by blast
    next
      case 2
      then obtain pre post where "cs = pre @ sub @ post" using Cons.IH by auto
      then have "c # cs = (c # pre) @ sub @ post" by simp
      then show ?thesis by blast
    qed
  next
    assume "\<exists>pre post. c # cs = pre @ sub @ post"
    then obtain pre post where e: "c # cs = pre @ sub @ post" by auto
    show "py_contains sub (c # cs)"
    proof (cases pre)
      case Nil
      then have "py_startswith (c # cs) sub" using e by (auto simp: py_startswith_iff)
      then show ?thesis by simp
    next
      case (Cons p ps)
      then have "cs = ps @ sub @ post" using e by simp
      then have "py_contains sub cs" using Cons.IH by blast
      then show ?thesis by simp
    qed
  qed
qed

lemma contains_eq_iff: "py_contains [61] s \<longleftrightarrow> 61 \<in> set s"
  by (induction s) (auto simp: py_startswith_def)

lemma split1_eq: "61 \<in> set s \<Longrightarrow> py_split1_eq s = (a, b) \<longleftrightarrow> (s = a @ 61 # b \<and> 61 \<notin> set a)"
proof
  assume m: "61 \<in> set s" and p: "py_split1_eq s = (a, b)"
  have a: "a = takeWhile (\<lambda>c. c \<noteq> 61) s" and b: "b = tl (dropWhile (\<lambda>c. c \<noteq> 61) s)"
    using p by (auto simp: py_split1_eq_def)
  have "dropWhile (\<lambda>c. c \<noteq> 61) s \<noteq> []" using m by (simp add: dropWhile_eq_Nil_conv)
  moreover have "hd (dropWhile (\<lambda>c. c \<noteq> 61) s) = 61"
    using m hd_dropWhile[of "\<lambda>c. c \<noteq> 61" s] calculation by auto
  ultimately have "dropWhile (\<lambda>c. c \<noteq> 61) s = 61 # b" using b
    by (metis list.collapse)
  then have "s = a @ 61 # b" using a takeWhile_dropWhile_id[of "\<lambda>c. c \<noteq> 61" s] by simp
  moreover have "61 \<notin> set a" using a by (auto dest: set_takeWhileD)
  ultimately show "s = a @ 61 # b \<and> 61 \<notin> set a" by simp
next
  assume "s = a @ 61 # b \<and> 61 \<notin> set a"
  then have s: "s = a @ 61 # b" and n: "\<And>x. x \<in> set a \<Longrightarrow> x \<noteq> 61" by auto
  have "takeWhile (\<lambda>c. c \<noteq> 61) s = a" unfolding s using n by (simp add: takeWhile_append2)
  moreover have "dropWhile (\<lambda>c. c \<noteq> 61) s = 61 # b" unfolding s using n
    by (simp add: dropWhile_append2)
  ultimately show "py_split1_eq s = (a, b)" by (simp add: py_split1_eq_def)
qed

lemma env_line_entry:
  "spec_env_entry l k v \<Longrightarrow> map_of (env_line c l) = (map_of c)(k \<mapsto> v)"
proof -
  assume "spec_env_entry l k v"
  then obtain a b where s: "py_strip l = a @ 61 # b" and a: "61 \<notin> set a"
    and h: "hd (py_strip l) \<noteq> 35" and k: "k = py_strip a" and v: "v = py_strip b"
    by (auto simp: spec_env_entry_def)
  have 1: "py_strip l \<noteq> []" using s by simp
  have 2: "\<not> py_startswith (py_strip l) [35]" using h 1
    by (cases "py_strip l") (auto simp: py_startswith_def)
  have 3: "py_contains [61] (py_strip l)" using s by (simp add: contains_eq_iff)
  have 4: "py_split1_eq (py_strip l) = (a, b)" using s a split1_eq[of "py_strip l" a b] by simp
  show ?thesis using 1 2 3 4 k v by (simp add: env_line_def Let_def update_conv')
qed

lemma env_line_no_entry:
  "\<forall>k v. \<not> spec_env_entry l k v \<Longrightarrow> env_line c l = c"
proof (rule ccontr)
  assume n: "\<forall>k v. \<not> spec_env_entry l k v" and d: "env_line c l \<noteq> c"
  have 1: "py_strip l \<noteq> []" and 2: "\<not> py_startswith (py_strip l) [35]"
    and 3: "py_contains [61] (py_strip l)"
    using d by (auto simp: env_line_def Let_def split: if_splits)
  obtain a b where 4: "py_split1_eq (py_strip l) = (a, b)" by (cases "py_split1_eq (py_strip l)")
  have "py_strip l = a @ 61 # b \<and> 61 \<notin> set a"
    using 3 4 split1_eq[of "py_strip l" a b] by (simp add: contains_eq_iff)
  moreover have "hd (py_strip l) \<noteq> 35" using 1 2 by (cases "py_strip l") (auto simp: py_startswith_def)
  ultimately have "spec_env_entry l (py_strip a) (py_strip b)" by (auto simp: spec_env_entry_def)
  then show False using n by blast
qed

lemma spec_env_entry_fun: "spec_env_entry l k v \<Longrightarrow> spec_env_entry l k' v' \<Longrightarrow> k' = k \<and> v' = v"
proof -
  assume "spec_env_entry l k v" "spec_env_entry l k' v'"
  then obtain a b a' b' where "py_strip l = a @ 61 # b" "61 \<notin> set a" "k = py_strip a" "v = py_strip b"
    "py_strip l = a' @ 61 # b'" "61 \<notin> set a'" "k' = py_strip a'" "v' = py_strip b'"
    by (auto simp: spec_env_entry_def)
  moreover from this have "py_split1_eq (py_strip l) = (a, b)" "py_split1_eq (py_strip l) = (a', b')"
    using split1_eq[of "py_strip l" a b] split1_eq[of "py_strip l" a' b'] by auto
  ultimately show ?thesis by simp
qed

lemma foldl_env_line:
  "map_of (foldl env_line c ls) k = Some v \<longleftrightarrow>
     (\<exists>pre l post. ls = pre @ l # post \<and> spec_env_entry l k v \<and> (\<forall>l' \<in> set post. \<forall>v'. \<not> spec_env_entry l' k v'))
     \<or> (map_of c k = Some v \<and> (\<forall>l' \<in> set ls. \<forall>v'. \<not> spec_env_entry l' k v'))"
proof (induction ls rule: rev_induct)
  case Nil
  then show ?case by simp
next
  case (snoc x xs)
  let ?m = "foldl env_line c xs"
  show ?case
  proof (cases "\<exists>k' v'. spec_env_entry x k' v'")
    case True
    then obtain k' v' where e: "spec_env_entry x k' v'" by blast
    have m: "map_of (foldl env_line c (xs @ [x])) = (map_of ?m)(k' \<mapsto> v')"
      using env_line_entry[OF e] by simp
    show ?thesis
    proof (cases "k' = k")
      case True
      have "map_of (foldl env_line c (xs @ [x])) k = Some v \<longleftrightarrow> v' = v" using m True by auto
      moreover have "v' = v \<Longrightarrow> \<exists>pre l post. xs @ [x] = pre @ l # post \<and> spec_env_entry l k v \<and> (\<forall>l' \<in> set post. \<forall>v'. \<not> spec_env_entry l' k v')"
        using e True by (intro exI[of _ xs] exI[of _ x] exI[of _ "[]"]) simp
      moreover have "v' = v" if "xs @ [x] = pre @ l # post" "spec_env_entry l k v" "\<forall>l' \<in> set post. \<forall>v'. \<not> spec_env_entry l' k v'" for pre l post
      proof (cases post rule: rev_cases)
        case Nil
        then show ?thesis using that e spec_env_entry_fun by auto
      next
        case (snoc ys y)
        then have "y = x" using that(1) by (metis append_Cons append_assoc snoc_eq_iff_butlast)
        then show ?thesis using that(3) snoc e True by auto
      qed
      moreover have "\<not> (\<forall>l' \<in> set (xs @ [x]). \<forall>v'. \<not> spec_env_entry l' k v')" using e True by auto
      ultimately show ?thesis by blast
    next
      case False
      have nx: "\<forall>v'. \<not> spec_env_entry x k v'" using e False spec_env_entry_fun by blast
      have "map_of (foldl env_line c (xs @ [x])) k = map_of ?m k" using m False by auto
      moreover have "(\<exists>pre l post. xs @ [x] = pre @ l # post \<and> spec_env_entry l k v \<and> (\<forall>l' \<in> set post. \<forall>v'. \<not> spec_env_entry l' k v'))
         \<longleftrightarrow> (\<exists>pre l post. xs = pre @ l # post \<and> spec_env_entry l k v \<and> (\<forall>l' \<in> set post. \<forall>v'. \<not> spec_env_entry l' k v'))"
        (is "?L \<longleftrightarrow> ?R")
      proof
        assume ?L
        then obtain pre l post where p: "xs @ [x] = pre @ l # post" "spec_env_entry l k v" "\<forall>l' \<in> set post. \<forall>v'. \<not> spec_env_entry l' k v'" by blast
        show ?R
        proof (cases post rule: rev_cases)
          case Nil
          then have "l = x" using p(1) by simp
          then show ?thesis using p(2) nx by blast
        next
          case (snoc ys y)
          then have "xs = pre @ l # ys" using p(1) by (metis append_Cons append_assoc butlast_snoc)
          moreover have "\<forall>l' \<in> set ys. \<forall>v'. \<not> spec_env_entry l' k v'" using p(3) snoc by simp
          ultimately show ?thesis using p(2) by blast
        qed
      next
        assume ?R
        then obtain pre l post where p: "xs = pre @ l # post" "spec_env_entry l k v" "\<forall>l' \<in> set post. \<forall>v'. \<not> spec_env_entry l' k v'" by blast
        have "xs @ [x] = pre @ l # (post @ [x])" using p(1) by simp
        moreover have "\<forall>l' \<in> set (post @ [x]). \<forall>v'. \<not> spec_env_entry l' k v'" using p(3) nx by simp
        ultimately show ?L using p(2) by blast
      qed
      moreover have "(\<forall>l' \<in> set (xs @ [x]). \<forall>v'. \<not> spec_env_entry l' k v') \<longleftrightarrow> (\<forall>l' \<in> set xs. \<forall>v'. \<not> spec_env_entry l' k v')"
        using nx by simp
      ultimately show ?thesis using snoc.IH by simp
    qed
  next
    case False
    then have n: "\<forall>k v. \<not> spec_env_entry x k v" by blast
    have "foldl env_line c (xs @ [x]) = ?m" using env_line_no_entry[OF n] by simp
    moreover have "(\<exists>pre l post. xs @ [x] = pre @ l # post \<and> spec_env_entry l k v \<and> (\<forall>l' \<in> set post. \<forall>v'. \<not> spec_env_entry l' k v'))
         \<longleftrightarrow> (\<exists>pre l post. xs = pre @ l # post \<and> spec_env_entry l k v \<and> (\<forall>l' \<in> set post. \<forall>v'. \<not> spec_env_entry l' k v'))"
        (is "?L \<longleftrightarrow> ?R")
    proof
      assume ?L
      then obtain pre l post where p: "xs @ [x] = pre @ l # post" "spec_env_entry l k v" "\<forall>l' \<in> set post. \<forall>v'. \<not> spec_env_entry l' k v'" by blast
      show ?R
      proof (cases post rule: rev_cases)
        case Nil
        then have "l = x" using p(1) by simp
        then show ?thesis using p(2) n by blast
      next
        case (snoc ys y)
        then have "xs = pre @ l # ys" using p(1) by (metis append_Cons append_assoc butlast_snoc)
        moreover have "\<forall>l' \<in> set ys. \<forall>v'. \<not> spec_env_entry l' k v'" using p(3) snoc by simp
        ultimately show ?thesis using p(2) by blast
      qed
    next
      assume ?R
      then obtain pre l post where p: "xs = pre @ l # post" "spec_env_entry l k v" "\<forall>l' \<in> set post. \<forall>v'. \<not> spec_env_entry l' k v'" by blast
      have "xs @ [x] = pre @ l # (post @ [x])" using p(1) by simp
      moreover have "\<forall>l' \<in> set (post @ [x]). \<forall>v'. \<not> spec_env_entry l' k v'" using p(3) n by simp
      ultimately show ?L using p(2) by blast
    qed
    moreover have "(\<forall>l' \<in> set (xs @ [x]). \<forall>v'. \<not> spec_env_entry l' k v') \<longleftrightarrow> (\<forall>l' \<in> set xs. \<forall>v'. \<not> spec_env_entry l' k v')"
      using n by simp
    ultimately show ?thesis using snoc.IH by simp
  qed
qed

lemmas env_eval = parse_env_def read_lines_def env_line_def py_strip_def py_isspace_def
  py_startswith_def py_split1_eq_def read_env_file_places_def

text \<open>
  Claim C1. For every \<open>.env\<close> text the parser gives a map from strings to strings in
  which \<open>k\<close> has the value \<open>v\<close> exactly when some line is significant (stripped, it is
  not empty, does not start with \<open>#\<close> and contains \<open>=\<close>), gives \<open>k\<close> and \<open>v\<close> as the
  stripped parts before and after its first \<open>=\<close>, and no later line is significant with
  the key \<open>k\<close>: the last occurrence wins. The analyzer's \<open>read_env_file\<close> gives the same
  map for a file that exists. For the body \<open>A=1\nB=2\nA=3\n\<close> the map gives \<open>3\<close> to
  \<open>A\<close> and \<open>2\<close> to \<open>B\<close>; the lines \<open># A=1\<close> and \<open>NOKEY\<close> leave the map as it is.
\<close>

theorem env_parser_last_line_wins:
  "(map_of (read_env_file_places (Some content)) k = Some v \<longleftrightarrow>
      (\<exists>pre l post. read_lines content = pre @ l # post \<and> spec_env_entry l k v \<and>
         (\<forall>l' \<in> set post. \<forall>v'. \<not> spec_env_entry l' k v'))) \<and>
   read_env_file_analyzer env_path (Some content) = ([], Some (read_env_file_places (Some content))) \<and>
   read_env_file_places (Some (py ''A=1\<newline>B=2\<newline>A=3\<newline>'')) = [(py ''A'', py ''3''), (py ''B'', py ''2'')] \<and>
   map_of (read_env_file_places (Some (py ''A=1\<newline>B=2\<newline>A=3\<newline>''))) (py ''A'') = Some (py ''3'') \<and>
   map_of (read_env_file_places (Some (py ''A=1\<newline>B=2\<newline>A=3\<newline>''))) (py ''B'') = Some (py ''2'') \<and>
   env_line config (py ''# A=1'') = config \<and>
   env_line config (py ''NOKEY'') = config"
proof (intro conjI)
  show "map_of (read_env_file_places (Some content)) k = Some v \<longleftrightarrow>
      (\<exists>pre l post. read_lines content = pre @ l # post \<and> spec_env_entry l k v \<and>
         (\<forall>l' \<in> set post. \<forall>v'. \<not> spec_env_entry l' k v'))"
    using foldl_env_line[of "[]" "read_lines content" k v]
    by (simp add: read_env_file_places_def parse_env_def)
  show "read_env_file_analyzer env_path (Some content) = ([], Some (read_env_file_places (Some content)))"
    by (simp add: read_env_file_analyzer_def read_env_file_places_def)
  show "read_env_file_places (Some (py ''A=1\<newline>B=2\<newline>A=3\<newline>'')) = [(py ''A'', py ''3''), (py ''B'', py ''2'')]"
    by (simp add: env_eval)
  then show "map_of (read_env_file_places (Some (py ''A=1\<newline>B=2\<newline>A=3\<newline>''))) (py ''A'') = Some (py ''3'')"
    by simp
  show "map_of (read_env_file_places (Some (py ''A=1\<newline>B=2\<newline>A=3\<newline>''))) (py ''B'') = Some (py ''2'')"
    by (simp add: env_eval)
  show "env_line config (py ''# A=1'') = config"
    by (simp add: env_eval)
  show "env_line config (py ''NOKEY'') = config"
    by (simp add: env_eval)
qed

text \<open>The rule at a file where the key \<open>K\<close> occurs twice, the second time with spaces
  and a second \<open>=\<close>, and then once more in a comment.\<close>

theorem env_parser_last_line_wins_witness:
  "map_of (read_env_file_places (Some (py ''K=old\<newline> K = a=b \<newline># K=no\<newline>''))) (py ''K'') = Some (py ''a=b'') \<and>
   (\<exists>pre l post. read_lines (py ''K=old\<newline> K = a=b \<newline># K=no\<newline>'') = pre @ l # post \<and>
       spec_env_entry l (py ''K'') (py ''a=b'') \<and>
       (\<forall>l' \<in> set post. \<forall>v'. \<not> spec_env_entry l' (py ''K'') v'))"
proof -
  have l: "map_of (read_env_file_places (Some (py ''K=old\<newline> K = a=b \<newline># K=no\<newline>''))) (py ''K'') = Some (py ''a=b'')"
    by (simp add: env_eval)
  from l env_parser_last_line_wins[of "py ''K=old\<newline> K = a=b \<newline># K=no\<newline>''" "py ''K''" "py ''a=b''"]
  show ?thesis by blast
qed

section \<open>The API key of the Places tester\<close>

lemma resolve_cli: "c \<noteq> [] \<Longrightarrow> resolve_api_key (Some c) g f = Inr c"
  by (cases c) simp_all

lemma resolve_env:
  "cli_key = None \<or> cli_key = Some [] \<Longrightarrow> e \<noteq> [] \<Longrightarrow> resolve_api_key cli_key (Some e) f = Inr e"
  by (cases e) auto

lemma resolve_file:
  "cli_key = None \<or> cli_key = Some [] \<Longrightarrow> g = None \<or> g = Some [] \<Longrightarrow>
   resolve_api_key cli_key g f =
     (case map_of (read_env_file_places f) (py ''GOOGLE_MAPS_API_KEY'') of
        Some (k # ks) \<Rightarrow> Inr (k # ks)
      | _ \<Rightarrow> Inl (SystemExit (ExitStr key_not_found)))"
  by auto

text \<open>
  Claim C2, as amended. A \<open>--key\<close> value that is not empty is returned whatever the
  environment variable and the file hold, so also when all three are present with
  different values. With \<open>--key\<close> absent or empty, the environment variable's value is
  returned when it is set and not empty. With the variable unset or empty as well, the
  result is the value the \<open>.env\<close> file gives the key, when that is not empty.
\<close>

theorem resolve_api_key_precedence:
  "(cli \<noteq> [] \<longrightarrow> resolve_api_key (Some cli) getenv file = Inr cli) \<and>
   ((cli_key = None \<or> cli_key = Some []) \<and> e \<noteq> [] \<longrightarrow>
      resolve_api_key cli_key (Some e) file = Inr e) \<and>
   ((cli_key = None \<or> cli_key = Some []) \<and> (getenv = None \<or> getenv = Some []) \<longrightarrow>
      (resolve_api_key cli_key getenv file = Inr v \<longleftrightarrow>
         v \<noteq> [] \<and> map_of (read_env_file_places file) (py ''GOOGLE_MAPS_API_KEY'') = Some v))"
proof (intro conjI impI)
  assume "cli \<noteq> []"
  then show "resolve_api_key (Some cli) getenv file = Inr cli" by (rule resolve_cli)
next
  assume "(cli_key = None \<or> cli_key = Some []) \<and> e \<noteq> []"
  then show "resolve_api_key cli_key (Some e) file = Inr e" using resolve_env by blast
next
  assume "(cli_key = None \<or> cli_key = Some []) \<and> (getenv = None \<or> getenv = Some [])"
  then have "resolve_api_key cli_key getenv file =
     (case map_of (read_env_file_places file) (py ''GOOGLE_MAPS_API_KEY'') of
        Some (k # ks) \<Rightarrow> Inr (k # ks)
      | _ \<Rightarrow> Inl (SystemExit (ExitStr key_not_found)))"
    using resolve_file by blast
  then show "resolve_api_key cli_key getenv file = Inr v \<longleftrightarrow>
         v \<noteq> [] \<and> map_of (read_env_file_places file) (py ''GOOGLE_MAPS_API_KEY'') = Some v"
    by (auto split: option.splits list.splits)
qed

text \<open>The three sources present with the values \<open>cli\<close>, \<open>env\<close> and \<open>file\<close>; then
  with an empty \<open>--key\<close>; then with an empty environment variable too.\<close>

theorem resolve_api_key_precedence_witness:
  "resolve_api_key (Some (py ''cli'')) (Some (py ''env'')) (Some (py ''GOOGLE_MAPS_API_KEY=file'')) = Inr (py ''cli'') \<and>
   resolve_api_key (Some []) (Some (py ''env'')) (Some (py ''GOOGLE_MAPS_API_KEY=file'')) = Inr (py ''env'') \<and>
   resolve_api_key None (Some []) (Some (py ''GOOGLE_MAPS_API_KEY=file'')) = Inr (py ''file'')"
proof -
  have f: "map_of (read_env_file_places (Some (py ''GOOGLE_MAPS_API_KEY=file''))) (py ''GOOGLE_MAPS_API_KEY'') = Some (py ''file'')"
    by (simp add: env_eval)
  show ?thesis
    using f
      resolve_api_key_precedence[of "py ''cli''" "Some (py ''env'')" "Some (py ''GOOGLE_MAPS_API_KEY=file'')" "Some []" "py ''env''" "py ''file''"]
      resolve_api_key_precedence[of "py ''cli''" "Some []" "Some (py ''GOOGLE_MAPS_API_KEY=file'')" "None" "py ''env''" "py ''file''"]
    by simp
qed

text \<open>
  The claim as stated fails where the environment variable is set to the empty string
  (as \<open>GOOGLE_MAPS_API_KEY= python test_places_api.py ...\<close> does): with no \<open>--key\<close>, the
  variable is set, and the function returns the file's value, not the variable's.
\<close>

theorem resolve_api_key_empty_env_counterexample:
  "resolve_api_key None (Some []) (Some (py ''GOOGLE_MAPS_API_KEY=file'')) = Inr (py ''file'') \<and>
   resolve_api_key None (Some []) (Some (py ''GOOGLE_MAPS_API_KEY=file'')) \<noteq> Inr []"
  by (simp add: env_eval)

lemma resolve_none:
  assumes "cli_key = None \<or> cli_key = Some []" "g = None \<or> g = Some []"
    "map_of (read_env_file_places f) (py ''GOOGLE_MAPS_API_KEY'') = None \<or>
     map_of (read_env_file_places f) (py ''GOOGLE_MAPS_API_KEY'') = Some []"
  shows "resolve_api_key cli_key g f = Inl (SystemExit (ExitStr key_not_found))"
  using assms(3) resolve_file[OF assms(1,2), of f] by auto

text \<open>
  Claim C8. When \<open>--key\<close> is absent or empty, the environment variable is unset or
  empty, and the \<open>.env\<close> file gives \<open>GOOGLE_MAPS_API_KEY\<close> no value or an empty one (a
  missing file gives none), \<open>resolve_api_key\<close> raises \<open>SystemExit\<close> with a message that
  names the variable and the three ways to supply it, and returns no value. In a run
  of the script without \<open>--backend\<close> and with a well-formed \<open>--location\<close>, nothing
  catches it: the process ends with status 1 and that message.
\<close>

theorem missing_api_key_is_fatal:
  "(cli_key = None \<or> cli_key = Some []) \<and> (getenv = None \<or> getenv = Some []) \<and>
   (map_of (read_env_file_places file) (py ''GOOGLE_MAPS_API_KEY'') = None \<or>
    map_of (read_env_file_places file) (py ''GOOGLE_MAPS_API_KEY'') = Some [])
   \<longrightarrow>
     resolve_api_key cli_key getenv file =
       Inl (SystemExit (ExitStr ''GOOGLE_MAPS_API_KEY not found. Provide --key, set env var, or put it in .env'')) \<and>
     (\<forall>v. resolve_api_key cli_key getenv file \<noteq> Inr v) \<and>
     ((arg_backend a = None \<or> arg_backend a = Some []) \<and>
      parse_location (w_float w) (arg_location a) = Inr lat_lng \<and>
      arg_key a = cli_key \<and> w_getenv w = getenv \<and> w_files w (arg_env a) = file
      \<longrightarrow> places_run w a =
            ([], Exited 1 (Some ''GOOGLE_MAPS_API_KEY not found. Provide --key, set env var, or put it in .env'')))"
proof (intro impI)
  assume h: "(cli_key = None \<or> cli_key = Some []) \<and> (getenv = None \<or> getenv = Some []) \<and>
   (map_of (read_env_file_places file) (py ''GOOGLE_MAPS_API_KEY'') = None \<or>
    map_of (read_env_file_places file) (py ''GOOGLE_MAPS_API_KEY'') = Some [])"
  have r: "resolve_api_key cli_key getenv file = Inl (SystemExit (ExitStr key_not_found))"
    using h resolve_none by blast
  have 1: "resolve_api_key cli_key getenv file =
       Inl (SystemExit (ExitStr ''GOOGLE_MAPS_API_KEY not found. Provide --key, set env var, or put it in .env''))"
    using r by (simp add: key_not_found_def)
  have 2: "\<forall>v. resolve_api_key cli_key getenv file \<noteq> Inr v" using r by simp
  have 3: "places_run w a =
            ([], Exited 1 (Some ''GOOGLE_MAPS_API_KEY not found. Provide --key, set env var, or put it in .env''))"
    if "(arg_backend a = None \<or> arg_backend a = Some []) \<and>
      parse_location (w_float w) (arg_location a) = Inr lat_lng \<and>
      arg_key a = cli_key \<and> w_getenv w = getenv \<and> w_files w (arg_env a) = file"
  proof -
    have "places_main w a = ([], Inl (SystemExit (ExitStr key_not_found)))"
      using that r by (auto simp: places_main_def io_bind_def)
    then show ?thesis
      by (simp add: places_run_def places_entry_def key_not_found_def)
  qed
  show "resolve_api_key cli_key getenv file =
       Inl (SystemExit (ExitStr ''GOOGLE_MAPS_API_KEY not found. Provide --key, set env var, or put it in .env'')) \<and>
     (\<forall>v. resolve_api_key cli_key getenv file \<noteq> Inr v) \<and>
     ((arg_backend a = None \<or> arg_backend a = Some []) \<and>
      parse_location (w_float w) (arg_location a) = Inr lat_lng \<and>
      arg_key a = cli_key \<and> w_getenv w = getenv \<and> w_files w (arg_env a) = file
      \<longrightarrow> places_run w a =
            ([], Exited 1 (Some ''GOOGLE_MAPS_API_KEY not found. Provide --key, set env var, or put it in .env'')))"
    using 1 2 3 by blast
qed

text \<open>An empty \<open>--key\<close>, no environment variable, and a file where the key occurs only in
  a comment.\<close>

theorem missing_api_key_is_fatal_witness:
  "resolve_api_key (Some []) None (Some (py ''# GOOGLE_MAPS_API_KEY=x\<newline>OTHER=1'')) =
     Inl (SystemExit (ExitStr ''GOOGLE_MAPS_API_KEY not found. Provide --key, set env var, or put it in .env'')) \<and>
   places_run
     \<lparr>w_float = (\<lambda>s. Some (Finite 0)), w_loads = (\<lambda>s. None),
      w_files = (\<lambda>p. Some (py ''# GOOGLE_MAPS_API_KEY=x\<newline>OTHER=1'')),
      w_getenv = None, w_urlopen = (\<lambda>r. Raises Timeout)\<rparr>
     \<lparr>arg_mode = Both, arg_key = Some [], arg_env = py ''.env'', arg_backend = None,
      arg_location = py ''14.5995,120.9842''\<rparr> =
     ([], Exited 1 (Some ''GOOGLE_MAPS_API_KEY not found. Provide --key, set env var, or put it in .env''))"
proof -
  have f: "map_of (read_env_file_places (Some (py ''# GOOGLE_MAPS_API_KEY=x\<newline>OTHER=1''))) (py ''GOOGLE_MAPS_API_KEY'') = None"
    by (simp add: env_eval)
  have l: "parse_location (\<lambda>s. Some (Finite 0)) (py ''14.5995,120.9842'') = Inr (Finite 0, Finite 0)"
    by (simp add: parse_location_def)
  show ?thesis
    using f l
      missing_api_key_is_fatal[of "Some []" None "Some (py ''# GOOGLE_MAPS_API_KEY=x\<newline>OTHER=1'')"
        "\<lparr>arg_mode = Both, arg_key = Some [], arg_env = py ''.env'', arg_backend = None,
      arg_location = py ''14.5995,120.9842''\<rparr>"
       "\<lparr>w_float = (\<lambda>s. Some (Finite 0)), w_loads = (\<lambda>s. None),
      w_files = (\<lambda>p. Some (py ''# GOOGLE_MAPS_API_KEY=x\<newline>OTHER=1'')),
      w_getenv = None, w_urlopen = (\<lambda>r. Raises Timeout)\<rparr>" "(Finite 0, Finite 0)"]
    by simp
qed

section \<open>The item list of the reporter\<close>

lemma extract_top_predictions:
  "map_of data (py ''predictions'') = Some v \<Longrightarrow> extract_items data = v"
  by (simp add: extract_items_def get_default_def)

lemma extract_top_results:
  "map_of data (py ''predictions'') = None \<Longrightarrow> map_of data (py ''results'') = Some v \<Longrightarrow>
   extract_items data = v"
  by (simp add: extract_items_def get_default_def)

lemma extract_nested:
  "map_of data (py ''predictions'') = None \<Longrightarrow> map_of data (py ''results'') = None \<Longrightarrow>
   map_of data (py ''data'') = Some (JObj d) \<Longrightarrow>
   extract_items data =
     py_or (get_default d (py ''predictions'') JNull) (py_or (get_default d (py ''results'') JNull) (JArr []))"
  by (simp add: extract_items_def)

lemma extract_otherwise:
  "map_of data (py ''predictions'') = None \<Longrightarrow> map_of data (py ''results'') = None \<Longrightarrow>
   \<forall>d. map_of data (py ''data'') \<noteq> Some (JObj d) \<Longrightarrow>
   extract_items data = JArr []"
  by (auto simp: extract_items_def split: option.splits json.splits)

lemma show_item_events: "length (fst (show_item y)) \<le> 1"
  by (cases y rule: show_item.cases) (simp_all add: io_print_def io_raise_def Let_def)

lemma io_each_show_item_length: "length (fst (io_each show_item ys)) \<le> length ys"
proof (induction ys)
  case Nil
  then show ?case by (simp add: io_return_def)
next
  case (Cons y ys)
  obtain out r where y: "show_item y = (out, r)" by (cases "show_item y")
  obtain out' r' where ys: "io_each show_item ys = (out', r')" by (cases "io_each show_item ys")
  have "length out \<le> 1" using show_item_events[of y] y by simp
  moreover have "length out' \<le> length ys" using Cons.IH ys by simp
  ultimately show ?case using y ys
    by (cases r) (auto simp: io_seq_def io_bind_def)
qed

lemma show_item_dict: "\<exists>ev. show_item (i, JObj item) = ([ev], Inr ())"
  by (simp add: io_print_def Let_def)

lemma io_each_show_item_dicts:
  "\<forall>y \<in> set ys. \<exists>item. snd y = JObj item \<Longrightarrow>
   io_each show_item ys = (concat (map (\<lambda>y. fst (show_item y)) ys), Inr ())"
proof (induction ys)
  case Nil
  then show ?case by (simp add: io_return_def)
next
  case (Cons y ys)
  obtain i item where y: "y = (i, JObj item)" using Cons.prems by (cases y) auto
  obtain ev where e: "show_item y = ([ev], Inr ())" using show_item_dict y by blast
  have "io_each show_item ys = (concat (map (\<lambda>y. fst (show_item y)) ys), Inr ())"
    using Cons by simp
  then show ?case using e by (simp add: io_seq_def io_bind_def)
qed

lemma length_concat_singletons:
  "\<forall>y \<in> set ys. length (f y) = 1 \<Longrightarrow> length (concat (map f ys)) = length ys"
  by (induction ys) auto

lemma summarize_list:
  "extract_items data = JArr xs \<Longrightarrow>
   summarize title status (JObj data) =
     ([Print PLAIN ''\<newline>=== {title} ==='' [AStr title],
       Print PLAIN ''Status: {status}'' [AInt status],
       Print PLAIN ''Items: {len(items)}'' [ANat (length xs)]] @
      fst (io_each show_item (enumerate 0 (take 5 xs))),
      snd (io_each show_item (enumerate 0 (take 5 xs))))"
  by (cases "io_each show_item (enumerate 0 (take 5 xs))")
     (simp add: summarize_def io_seq_def io_bind_def io_print_def Let_def)

text \<open>
  Claim C3. For every response dict the item list is, by the first rule that applies:
  the value of the top-level key \<open>predictions\<close>; else the value of the top-level key
  \<open>results\<close>; else, when \<open>data\<close> holds a dict, the value that dict gives
  \<open>predictions\<close> or \<open>results\<close> (the first of the two that is there and is not
  empty); else the empty list. The list is the response's own, so in its order. When it
  is a list, \<open>summarize\<close> prints the title, the status and the length, then at most
  five item lines, for its first five elements in order: exactly
  \<open>min 5 (length xs)\<close> lines when these are dicts. For the body
  \<open>{"predictions":[{"description":"X"},{"description":"Y"}]}\<close> the list is the two
  items in that order, of length 2.
\<close>

theorem item_list_extraction:
  "(map_of data (py ''predictions'') = Some v \<longrightarrow> extract_items data = v) \<and>
   (map_of data (py ''predictions'') = None \<and> map_of data (py ''results'') = Some v \<longrightarrow>
      extract_items data = v) \<and>
   (map_of data (py ''predictions'') = None \<and> map_of data (py ''results'') = None \<and>
    map_of data (py ''data'') = Some (JObj d) \<longrightarrow>
      (map_of d (py ''predictions'') = Some v \<and> truthy v \<longrightarrow> extract_items data = v) \<and>
      (map_of d (py ''predictions'') = None \<and> map_of d (py ''results'') = Some v \<and> truthy v \<longrightarrow>
         extract_items data = v) \<and>
      (map_of d (py ''predictions'') = None \<and> map_of d (py ''results'') = None \<longrightarrow>
         extract_items data = JArr [])) \<and>
   (map_of data (py ''predictions'') = None \<and> map_of data (py ''results'') = None \<and>
    (\<forall>d. map_of data (py ''data'') \<noteq> Some (JObj d)) \<longrightarrow>
      extract_items data = JArr []) \<and>
   (extract_items data = JArr xs \<longrightarrow>
      summarize title status (JObj data) =
        ([Print PLAIN ''\<newline>=== {title} ==='' [AStr title],
          Print PLAIN ''Status: {status}'' [AInt status],
          Print PLAIN ''Items: {len(items)}'' [ANat (length xs)]] @
         fst (io_each show_item (enumerate 0 (take 5 xs))),
         snd (io_each show_item (enumerate 0 (take 5 xs)))) \<and>
      length (fst (io_each show_item (enumerate 0 (take 5 xs)))) \<le> 5 \<and>
      ((\<forall>x \<in> set (take 5 xs). \<exists>item. x = JObj item) \<longrightarrow>
         io_each show_item (enumerate 0 (take 5 xs)) =
           (concat (map (\<lambda>y. fst (show_item y)) (enumerate 0 (take 5 xs))), Inr ()) \<and>
         length (concat (map (\<lambda>y. fst (show_item y)) (enumerate 0 (take 5 xs)))) = min 5 (length xs))) \<and>
   extract_items [(py ''predictions'',
       JArr [JObj [(py ''description'', JStr (py ''X''))], JObj [(py ''description'', JStr (py ''Y''))]])] =
     JArr [JObj [(py ''description'', JStr (py ''X''))], JObj [(py ''description'', JStr (py ''Y''))]] \<and>
   py_len (extract_items [(py ''predictions'',
       JArr [JObj [(py ''description'', JStr (py ''X''))], JObj [(py ''description'', JStr (py ''Y''))]])]) = Inr 2"
proof (intro conjI impI)
  show "extract_items data = v" if "map_of data (py ''predictions'') = Some v"
    using that by (rule extract_top_predictions)
  show "extract_items data = v"
    if "map_of data (py ''predictions'') = None \<and> map_of data (py ''results'') = Some v"
    using that extract_top_results by blast
  show "extract_items data = v"
    if "map_of data (py ''predictions'') = None \<and> map_of data (py ''results'') = None \<and>
        map_of data (py ''data'') = Some (JObj d)"
      and "map_of d (py ''predictions'') = Some v \<and> truthy v"
    using that extract_nested[of data d] by (simp add: py_or_def get_default_def)
  show "extract_items data = v"
    if "map_of data (py ''predictions'') = None \<and> map_of data (py ''results'') = None \<and>
        map_of data (py ''data'') = Some (JObj d)"
      and "map_of d (py ''predictions'') = None \<and> map_of d (py ''results'') = Some v \<and> truthy v"
    using that extract_nested[of data d] by (simp add: py_or_def get_default_def)
  show "extract_items data = JArr []"
    if "map_of data (py ''predictions'') = None \<and> map_of data (py ''results'') = None \<and>
        map_of data (py ''data'') = Some (JObj d)"
      and "map_of d (py ''predictions'') = None \<and> map_of d (py ''results'') = None"
    using that extract_nested[of data d] by (simp add: py_or_def get_default_def)
  show "extract_items data = JArr []"
    if "map_of data (py ''predictions'') = None \<and> map_of data (py ''results'') = None \<and>
        (\<forall>d. map_of data (py ''data'') \<noteq> Some (JObj d))"
    using that extract_otherwise by blast
  show "summarize title status (JObj data) =
        ([Print PLAIN ''\<newline>=== {title} ==='' [AStr title],
          Print PLAIN ''Status: {status}'' [AInt status],
          Print PLAIN ''Items: {len(items)}'' [ANat (length xs)]] @
         fst (io_each show_item (enumerate 0 (take 5 xs))),
         snd (io_each show_item (enumerate 0 (take 5 xs))))"
    if "extract_items data = JArr xs"
    using that by (rule summarize_list)
  show "length (fst (io_each show_item (enumerate 0 (take 5 xs)))) \<le> 5"
    using io_each_show_item_length[of "enumerate 0 (take 5 xs)"] by simp
  assume d: "\<forall>x \<in> set (take 5 xs). \<exists>item. x = JObj item"
  have a: "\<forall>y \<in> set (enumerate 0 (take 5 xs)). \<exists>item. snd y = JObj item"
    using d by (metis in_set_zipE enumerate_eq_zip snd_conv surjective_pairing)
  show e: "io_each show_item (enumerate 0 (take 5 xs)) =
           (concat (map (\<lambda>y. fst (show_item y)) (enumerate 0 (take 5 xs))), Inr ())"
    using a by (rule io_each_show_item_dicts)
  have "\<forall>y \<in> set (enumerate 0 (take 5 xs)). length (fst (show_item y)) = 1"
  proof
    fix y assume "y \<in> set (enumerate 0 (take 5 xs))"
    then obtain item where "snd y = JObj item" using a by blast
    then have "y = (fst y, JObj item)" by (cases y) simp
    then show "length (fst (show_item y)) = 1"
      using show_item_dict[of "fst y" item] by auto
  qed
  then have "length (concat (map (\<lambda>y. fst (show_item y)) (enumerate 0 (take 5 xs)))) =
    length (enumerate 0 (take 5 xs))"
    by (rule length_concat_singletons)
  then show "length (concat (map (\<lambda>y. fst (show_item y)) (enumerate 0 (take 5 xs)))) = min 5 (length xs)"
    by (simp add: min.commute)
next
  show "extract_items [(py ''predictions'',
       JArr [JObj [(py ''description'', JStr (py ''X''))], JObj [(py ''description'', JStr (py ''Y''))]])] =
     JArr [JObj [(py ''description'', JStr (py ''X''))], JObj [(py ''description'', JStr (py ''Y''))]]"
    by (simp add: extract_items_def get_default_def)
  then show "py_len (extract_items [(py ''predictions'',
       JArr [JObj [(py ''description'', JStr (py ''X''))], JObj [(py ''description'', JStr (py ''Y''))]])]) = Inr 2"
    by simp
qed

text \<open>Seven predictions beside an empty \<open>results\<close>: the seven are extracted and five
  are listed after the three heading lines; then a text-search shape, a nested shape,
  and a \<open>data\<close> that is not a dict.\<close>

theorem item_list_extraction_witness:
  "extract_items [(py ''results'', JArr []),
      (py ''predictions'', JArr (map (\<lambda>n. JObj [(py ''place_id'', JInt n)]) [1, 2, 3, 4, 5, 6, 7]))] =
     JArr (map (\<lambda>n. JObj [(py ''place_id'', JInt n)]) [1, 2, 3, 4, 5, 6, 7]) \<and>
   length (fst (summarize (py ''Google Autocomplete'') 200 (JObj [(py ''results'', JArr []),
      (py ''predictions'', JArr (map (\<lambda>n. JObj [(py ''place_id'', JInt n)]) [1, 2, 3, 4, 5, 6, 7]))]))) = 8 \<and>
   extract_items [(py ''status'', JStr (py ''OK'')), (py ''results'', JArr [JObj []])] = JArr [JObj []] \<and>
   extract_items [(py ''data'', JObj [(py ''results'', JArr [JObj []])])] = JArr [JObj []] \<and>
   extract_items [(py ''data'', JArr [JObj []])] = JArr []"
proof -
  let ?xs = "map (\<lambda>n. JObj [(py ''place_id'', JInt n)]) [1, 2, 3, 4, 5, 6, 7]"
  let ?d1 = "[(py ''results'', JArr []), (py ''predictions'', JArr ?xs)]"
  let ?d2 = "[(py ''status'', JStr (py ''OK'')), (py ''results'', JArr [JObj []])]"
  let ?d3 = "[(py ''data'', JObj [(py ''results'', JArr [JObj []])])]"
  let ?d4 = "[(py ''data'', JArr [JObj []])]"
  have 1: "extract_items ?d1 = JArr ?xs"
    using item_list_extraction[of ?d1 "JArr ?xs"] by simp
  have 2: "length (fst (summarize (py ''Google Autocomplete'') 200 (JObj ?d1))) = 8"
    using 1 item_list_extraction[of ?d1 "JArr ?xs" "[]" ?xs "py ''Google Autocomplete''" 200] by simp
  have 3: "extract_items ?d2 = JArr [JObj []]"
    using item_list_extraction[of ?d2 "JArr [JObj []]"] by simp
  have 4: "extract_items ?d3 = JArr [JObj []]"
    using item_list_extraction[of ?d3 "JArr [JObj []]" "[(py ''results'', JArr [JObj []])]"] by simp
  have 5: "extract_items ?d4 = JArr []"
    using item_list_extraction[of ?d4] by simp
  show ?thesis using 1 2 3 4 5 by simp
qed

text \<open>
  Claim C9. At the top level the key's presence selects: a response whose
  \<open>predictions\<close> is the empty list gives no items although its \<open>results\<close> is not
  empty. Under \<open>data\<close> the candidates are joined by \<open>or\<close>: an empty
  \<open>data.predictions\<close> gives way to \<open>data.results\<close>, and an empty \<open>data.results\<close>
  to the empty list.
\<close>

theorem shape_layers_disagree_on_empty_list:
  "(map_of data (py ''predictions'') = Some (JArr []) \<and> map_of data (py ''results'') = Some (JArr (x # xs)) \<longrightarrow>
      extract_items data = JArr [] \<and> py_len (extract_items data) = Inr 0) \<and>
   (map_of data (py ''predictions'') = None \<and> map_of data (py ''results'') = None \<and>
    map_of data (py ''data'') = Some (JObj d) \<and> map_of d (py ''predictions'') = Some (JArr []) \<longrightarrow>
      extract_items data = py_or (get_default d (py ''results'') JNull) (JArr []) \<and>
      (map_of d (py ''results'') = Some (JArr (x # xs)) \<longrightarrow> extract_items data = JArr (x # xs)) \<and>
      (map_of d (py ''results'') = Some (JArr []) \<longrightarrow> extract_items data = JArr []))"
proof (intro conjI impI)
  assume "map_of data (py ''predictions'') = Some (JArr []) \<and> map_of data (py ''results'') = Some (JArr (x # xs))"
  then show e: "extract_items data = JArr []" using extract_top_predictions by blast
  then show "py_len (extract_items data) = Inr 0" by simp
next
  assume h: "map_of data (py ''predictions'') = None \<and> map_of data (py ''results'') = None \<and>
    map_of data (py ''data'') = Some (JObj d) \<and> map_of d (py ''predictions'') = Some (JArr [])"
  then have n: "extract_items data =
     py_or (get_default d (py ''predictions'') JNull) (py_or (get_default d (py ''results'') JNull) (JArr []))"
    using extract_nested by blast
  have p: "get_default d (py ''predictions'') JNull = JArr []" using h by (simp add: get_default_def)
  show r: "extract_items data = py_or (get_default d (py ''results'') JNull) (JArr [])"
    unfolding n p by (simp add: py_or_def)
  show "extract_items data = JArr (x # xs)" if "map_of d (py ''results'') = Some (JArr (x # xs))"
    unfolding r using that by (simp add: py_or_def get_default_def)
  show "extract_items data = JArr []" if "map_of d (py ''results'') = Some (JArr [])"
    unfolding r using that by (simp add: py_or_def get_default_def)
qed

text \<open>The same pair of lists at the top level and under \<open>data\<close>, and two empty lists
  under \<open>data\<close>.\<close>

theorem shape_layers_disagree_on_empty_list_witness:
  "extract_items [(py ''predictions'', JArr []), (py ''results'', JArr [JObj [(py ''description'', JStr (py ''X''))]])] = JArr [] \<and>
   extract_items [(py ''data'', JObj [(py ''predictions'', JArr []),
       (py ''results'', JArr [JObj [(py ''description'', JStr (py ''X''))]])])] =
     JArr [JObj [(py ''description'', JStr (py ''X''))]] \<and>
   extract_items [(py ''data'', JObj [(py ''predictions'', JArr []), (py ''results'', JArr [])])] = JArr []"
proof -
  let ?x = "JObj [(py ''description'', JStr (py ''X''))]"
  let ?d1 = "[(py ''predictions'', JArr []), (py ''results'', JArr [?x])]"
  let ?n2 = "[(py ''predictions'', JArr []), (py ''results'', JArr [?x])]"
  let ?n3 = "[(py ''predictions'', JArr []), (py ''results'', JArr [])]"
  have 1: "extract_items ?d1 = JArr []"
    using shape_layers_disagree_on_empty_list[of ?d1 ?x "[]"] by simp
  have 2: "extract_items [(py ''data'', JObj ?n2)] = JArr [?x]"
    using shape_layers_disagree_on_empty_list[of "[(py ''data'', JObj ?n2)]" ?x "[]" ?n2]
    by (simp add: py_or_def get_default_def)
  have 3: "extract_items [(py ''data'', JObj ?n3)] = JArr []"
    using shape_layers_disagree_on_empty_list[of "[(py ''data'', JObj ?n3)]" ?x "[]" ?n3]
    by (simp add: py_or_def get_default_def)
  show ?thesis using 1 2 3 by simp
qed

section \<open>The source scanner\<close>

lemma hardcoded_iff: "hardcoded line \<longleftrightarrow> spec_hardcoded line"
  unfolding hardcoded_def spec_hardcoded_def spec_occurs_def py_contains_iff ..

lemma templated_iff: "templated line \<longleftrightarrow> spec_templated line"
  unfolding templated_def spec_templated_def spec_occurs_def py_contains_iff ..

lemma filter_enumerate_nth:
  "map fst (filter (\<lambda>il. P (snd il)) (enumerate n xs)) =
   filter (\<lambda>i. P (xs ! (i - n))) [n ..< n + length xs]"
proof (induction xs arbitrary: n)
  case Nil
  then show ?case by simp
next
  case (Cons x xs)
  have "n < n + length (x # xs)" by simp
  then have u: "[n ..< n + length (x # xs)] = n # [Suc n ..< n + length (x # xs)]"
    by (rule upt_conv_Cons)
  have e: "n + length (x # xs) = Suc n + length xs" by simp
  have f: "filter (\<lambda>i. P ((x # xs) ! (i - n))) [Suc n ..< Suc n + length xs] =
           filter (\<lambda>i. P (xs ! (i - Suc n))) [Suc n ..< Suc n + length xs]"
  proof (rule filter_cong[OF refl])
    fix i assume "i \<in> set [Suc n ..< Suc n + length xs]"
    then have "i - n = Suc (i - Suc n)" by auto
    then show "P ((x # xs) ! (i - n)) = P (xs ! (i - Suc n))" by simp
  qed
  have "map fst (filter (\<lambda>il. P (snd il)) (enumerate n (x # xs))) =
        (if P x then [n] else []) @ map fst (filter (\<lambda>il. P (snd il)) (enumerate (Suc n) xs))"
    by simp
  also have "\<dots> = (if P x then [n] else []) @ filter (\<lambda>i. P (xs ! (i - Suc n))) [Suc n ..< Suc n + length xs]"
    using Cons.IH[of "Suc n"] by simp
  also have "\<dots> = (if P x then [n] else []) @ filter (\<lambda>i. P ((x # xs) ! (i - n))) [Suc n ..< Suc n + length xs]"
    using f by simp
  also have "\<dots> = filter (\<lambda>i. P ((x # xs) ! (i - n))) (n # [Suc n ..< Suc n + length xs])"
    by simp
  also have "\<dots> = filter (\<lambda>i. P ((x # xs) ! (i - n))) [n ..< n + length (x # xs)]"
    using u e by simp
  finally show ?case .
qed

lemma scan_lines_issues:
  "map line_no (snd (scan_lines lines)) =
   map fst (filter (\<lambda>il. hardcoded (snd il)) (enumerate 1 lines))"
proof -
  have "map line_no (concat (map snd (map scan_line ils))) =
        map fst (filter (\<lambda>il. hardcoded (snd il)) ils)" for ils
    by (induction ils) (auto simp: scan_line_def)
  then show ?thesis by (simp add: scan_lines_def Let_def)
qed

lemma scan_lines_templated:
  "Print OK ''Line {i}: Correctly using environment variables'' [ANat i] \<in> set (fst (scan_lines lines))
   \<longleftrightarrow> (\<exists>l. (i, l) \<in> set (enumerate 1 lines) \<and> templated l)"
proof -
  have "Print OK ''Line {i}: Correctly using environment variables'' [ANat i]
          \<in> set (concat (map fst (map scan_line ils)))
        \<longleftrightarrow> (\<exists>l. (i, l) \<in> set ils \<and> templated l)" for ils
    by (induction ils) (auto simp: scan_line_def)
  then show ?thesis by (simp add: scan_lines_def Let_def)
qed

lemma env_line_events_other:
  "Print OK ''Line {i}: Correctly using environment variables'' [ANat i]
     \<notin> set (concat (map env_line_events ils))"
  by (induction ils) (auto simp: env_line_events_def)

lemma show_issue_other:
  "Print OK ''Line {i}: Correctly using environment variables'' [ANat i]
     \<notin> set (concat (map show_issue xs))"
  by (induction xs) (auto simp: show_issue_def)

lemma check_code_issues:
  "snd (check_sms_service_code (Some content)) =
   snd (scan_lines (py_split 10 (universal_newlines content)))"
  by (cases "scan_lines (py_split 10 (universal_newlines content))")
     (simp add: check_sms_service_code_def Let_def)

lemma check_code_templated:
  "Print OK ''Line {i}: Correctly using environment variables'' [ANat i]
     \<in> set (fst (check_sms_service_code (Some content)))
   \<longleftrightarrow> Print OK ''Line {i}: Correctly using environment variables'' [ANat i]
     \<in> set (fst (scan_lines (py_split 10 (universal_newlines content))))"
  using env_line_events_other[of i] show_issue_other[of i]
  by (cases "scan_lines (py_split 10 (universal_newlines content))")
     (auto simp: check_sms_service_code_def Let_def)

text \<open>
  Claim C6. The scanner splits the file's text at line feeds and numbers the lines
  from 1. The line numbers of the findings it returns are, in order, exactly those of
  the lines that contain \<open>devices:\<close> and at least one of \<open>'1|1'\<close>, \<open>'2|2'\<close>,
  \<open>'0|0'\<close>; and it prints the recognition \<open>Correctly using environment variables\<close> for
  line \<open>i\<close> exactly when line \<open>i\<close> contains \<open>devices:\<close> and
  \<open>${this.defaultDevice}\<close>. The single line \<open>devices: '2|2',\<close> gives exactly one
  finding; the single line with the template gives no finding and one recognition.
\<close>

theorem scanner_flags_hardcoded_lines:
  "map line_no (snd (check_sms_service_code (Some content))) =
     filter (\<lambda>i. spec_hardcoded (py_split 10 (universal_newlines content) ! (i - 1)))
       [1 ..< 1 + length (py_split 10 (universal_newlines content))] \<and>
   (Print OK ''Line {i}: Correctly using environment variables'' [ANat i]
      \<in> set (fst (check_sms_service_code (Some content))) \<longleftrightarrow>
    1 \<le> i \<and> i \<le> length (py_split 10 (universal_newlines content)) \<and>
    spec_templated (py_split 10 (universal_newlines content) ! (i - 1))) \<and>
   snd (check_sms_service_code (Some (py ''devices: '2|2',''))) =
     [\<lparr>line_no = 1, issue = ''Hardcoded device ID'',
       the_fix = ''Use environment variables: devices: `${this.defaultDevice}|${this.defaultSimSlot}`''\<rparr>] \<and>
   check_sms_service_code (Some (py ''devices: `${this.defaultDevice}|${this.defaultSimSlot}`,'')) =
     ([Print HEADER ''SMS SERVICE CODE ANALYSIS'' [],
       Print INFO ''Analyzing smsService.js for hardcoded values...'' [],
       Print OK ''Line {i}: Correctly using environment variables'' [ANat 1],
       Print WARN ''Could not verify environment variable loading'' [],
       Print OK ''Code looks good - using environment variables!'' []], [])"
proof (intro conjI)
  let ?lines = "py_split 10 (universal_newlines content)"
  have "map line_no (snd (check_sms_service_code (Some content))) =
        map fst (filter (\<lambda>il. spec_hardcoded (snd il)) (enumerate 1 ?lines))"
    by (simp add: check_code_issues scan_lines_issues hardcoded_iff)
  then show "map line_no (snd (check_sms_service_code (Some content))) =
     filter (\<lambda>i. spec_hardcoded (?lines ! (i - 1))) [1 ..< 1 + length ?lines]"
    by (simp only: filter_enumerate_nth)
  have "Print OK ''Line {i}: Correctly using environment variables'' [ANat i]
      \<in> set (fst (check_sms_service_code (Some content))) \<longleftrightarrow>
      (\<exists>l. (i, l) \<in> set (enumerate 1 ?lines) \<and> spec_templated l)"
    by (simp only: check_code_templated scan_lines_templated templated_iff)
  also have "\<dots> \<longleftrightarrow> 1 \<le> i \<and> i \<le> length ?lines \<and> spec_templated (?lines ! (i - 1))"
    by (auto simp: in_set_enumerate_eq)
  finally show "Print OK ''Line {i}: Correctly using environment variables'' [ANat i]
      \<in> set (fst (check_sms_service_code (Some content))) \<longleftrightarrow>
    1 \<le> i \<and> i \<le> length ?lines \<and> spec_templated (?lines ! (i - 1))" .
  show "snd (check_sms_service_code (Some (py ''devices: '2|2',''))) =
     [\<lparr>line_no = 1, issue = ''Hardcoded device ID'',
       the_fix = ''Use environment variables: devices: `${this.defaultDevice}|${this.defaultSimSlot}`''\<rparr>]"
    by (simp add: check_code_issues scan_lines_def scan_line_def hardcoded_def quoted_def
        py_startswith_def)
  show "check_sms_service_code (Some (py ''devices: `${this.defaultDevice}|${this.defaultSimSlot}`,'')) =
     ([Print HEADER ''SMS SERVICE CODE ANALYSIS'' [],
       Print INFO ''Analyzing smsService.js for hardcoded values...'' [],
       Print OK ''Line {i}: Correctly using environment variables'' [ANat 1],
       Print WARN ''Could not verify environment variable loading'' [],
       Print OK ''Code looks good - using environment variables!'' []], [])"
    by (simp add: check_sms_service_code_def scan_lines_def scan_line_def hardcoded_def
        templated_def quoted_def py_startswith_def env_line_events_def loads_device_def
        loads_sim_slot_def)
qed

text \<open>A file of three lines, the first and the third hardcoded.\<close>

theorem scanner_flags_hardcoded_lines_witness:
  "map line_no (snd (check_sms_service_code
      (Some (py ''devices: '1|1',\<newline>type: sms\<newline>  devices: '0|0' '')))) = [1, 3]"
  using scanner_flags_hardcoded_lines[of "py ''devices: '1|1',\<newline>type: sms\<newline>  devices: '0|0' ''" 1]
  by (simp add: hardcoded_iff[symmetric] hardcoded_def quoted_def py_startswith_def)

section \<open>The configuration check of the SMS tester\<close>

lemma get_id_has_id: "get_id d = Inr i \<Longrightarrow> py_eq_int i n \<longleftrightarrow> spec_has_id d n"
  by (cases d) (auto simp: spec_has_id_def)

lemma device_ids_exists:
  "device_ids_of devices = Inr ids \<Longrightarrow>
   list_ex (\<lambda>i. py_eq_int i n) ids \<longleftrightarrow> (\<exists>d \<in> set devices. spec_has_id d n)"
proof (induction devices arbitrary: ids)
  case Nil
  then show ?case by auto
next
  case (Cons d ds)
  from Cons.prems obtain i js where i: "get_id d = Inr i" and js: "device_ids_of ds = Inr js"
    and ids: "ids = i # js"
    by (auto split: sum.splits)
  show ?case using Cons.IH[OF js] get_id_has_id[OF i, of n] ids by simp
qed

lemma next_device_first:
  "device_ids_of devices = Inr ids \<Longrightarrow> \<exists>d \<in> set devices. spec_has_id d n \<Longrightarrow>
   \<exists>before entry after. devices = before @ JObj entry # after \<and>
      spec_has_id (JObj entry) n \<and> (\<forall>d \<in> set before. \<not> spec_has_id d n) \<and>
      next_device n devices = Inr (Some (JObj entry))"
proof (induction devices arbitrary: ids)
  case Nil
  then show ?case by simp
next
  case (Cons d ds)
  from Cons.prems(1) obtain i js where i: "get_id d = Inr i" and js: "device_ids_of ds = Inr js"
    by (auto split: sum.splits)
  show ?case
  proof (cases "spec_has_id d n")
    case True
    then obtain entry where d: "d = JObj entry" by (auto simp: spec_has_id_def)
    have "next_device n (d # ds) = Inr (Some (JObj entry))"
      using i True get_id_has_id[OF i, of n] d by simp
    then have "d # ds = [] @ JObj entry # ds \<and> spec_has_id (JObj entry) n \<and>
       (\<forall>d \<in> set []. \<not> spec_has_id d n) \<and> next_device n (d # ds) = Inr (Some (JObj entry))"
      using True d by simp
    then show ?thesis by blast
  next
    case False
    then have "\<exists>d \<in> set ds. spec_has_id d n" using Cons.prems(2) by auto
    from Cons.IH[OF js this] obtain before entry after where
      b: "ds = before @ JObj entry # after" "spec_has_id (JObj entry) n"
         "\<forall>d \<in> set before. \<not> spec_has_id d n" "next_device n ds = Inr (Some (JObj entry))"
      by blast
    have "next_device n (d # ds) = Inr (Some (JObj entry))"
      using i False get_id_has_id[OF i, of n] b(4) by simp
    moreover have "d # ds = (d # before) @ JObj entry # after" using b(1) by simp
    moreover have "\<forall>x \<in> set (d # before). \<not> spec_has_id x n" using b(3) False by simp
    ultimately show ?thesis using b(2) by blast
  qed
qed

lemma configuration_check_found:
  assumes "device_ids_of devices = Inr ids" "\<exists>d \<in> set devices. spec_has_id d n"
  shows "\<exists>before entry after. devices = before @ JObj entry # after \<and>
      spec_has_id (JObj entry) n \<and> (\<forall>d \<in> set before. \<not> spec_has_id d n) \<and>
      configuration_check n slot devices =
        ([Print PLAIN ''\<newline>{=*60}'' [], Print PLAIN ''CONFIGURATION CHECK:'' [],
          Print OK ''Device ID {DEFAULT_DEVICE} EXISTS in the SMS server!'' [AInt n]] @
         fst (check_sim_slot n slot (JObj entry)),
         snd (check_sim_slot n slot (JObj entry)))"
proof -
  from next_device_first[OF assms] obtain before entry after where
    b: "devices = before @ JObj entry # after" "spec_has_id (JObj entry) n"
       "\<forall>d \<in> set before. \<not> spec_has_id d n" "next_device n devices = Inr (Some (JObj entry))"
    by blast
  have e: "list_ex (\<lambda>i. py_eq_int i n) ids" using device_ids_exists[OF assms(1)] assms(2) by simp
  have "configuration_check n slot devices =
        ([Print PLAIN ''\<newline>{=*60}'' [], Print PLAIN ''CONFIGURATION CHECK:'' [],
          Print OK ''Device ID {DEFAULT_DEVICE} EXISTS in the SMS server!'' [AInt n]] @
         fst (check_sim_slot n slot (JObj entry)),
         snd (check_sim_slot n slot (JObj entry)))"
    using assms(1) e b(4)
    by (cases "check_sim_slot n slot (JObj entry)")
       (simp add: configuration_check_def io_seq_def io_bind_def io_print_def)
  then show ?thesis using b(1,2,3) by blast
qed

lemma configuration_check_not_found:
  assumes "device_ids_of devices = Inr ids" "\<not> (\<exists>d \<in> set devices. spec_has_id d n)"
  shows "configuration_check n slot devices =
        ([Print PLAIN ''\<newline>{=*60}'' [], Print PLAIN ''CONFIGURATION CHECK:'' [],
          Print ERROR ''Device ID {DEFAULT_DEVICE} NOT FOUND!'' [AInt n],
          Print PLAIN ''Available device IDs: {device_ids}'' [AJsons ids]], Inr ())"
proof -
  have e: "\<not> list_ex (\<lambda>i. py_eq_int i n) ids" using device_ids_exists[OF assms(1)] assms(2) by simp
  show ?thesis using assms(1) e
    by (simp add: configuration_check_def io_seq_def io_bind_def io_print_def)
qed

lemma has_id_nonempty: "spec_has_id (JObj entry) n \<Longrightarrow> entry \<noteq> []"
  by (auto simp: spec_has_id_def get_default_def)

lemma check_sim_slot_entry:
  assumes "spec_has_id (JObj entry) n"
  shows "check_sim_slot n slot (JObj entry) =
     ([Print PLAIN ''\<newline>Your configured device:'' [],
       Print PLAIN ''  Device ID: {DEFAULT_DEVICE}'' [AInt n],
       Print PLAIN ''  SIM Slot: {DEFAULT_SIM_SLOT} (0=First, 1=Second)'' [AInt slot]] @
      fst (if slot = 0 \<and> truthy (get_default entry (py ''sim1'') JNull)
           then show_configured_sim (get_default entry (py ''sim1'') JNull)
           else if slot = 1 \<and> truthy (get_default entry (py ''sim2'') JNull)
           then show_configured_sim (get_default entry (py ''sim2'') JNull)
           else ([Print ERROR ''SIM Slot {DEFAULT_SIM_SLOT} not found on this device!'' [AInt slot]], Inr ())),
      snd (if slot = 0 \<and> truthy (get_default entry (py ''sim1'') JNull)
           then show_configured_sim (get_default entry (py ''sim1'') JNull)
           else if slot = 1 \<and> truthy (get_default entry (py ''sim2'') JNull)
           then show_configured_sim (get_default entry (py ''sim2'') JNull)
           else ([Print ERROR ''SIM Slot {DEFAULT_SIM_SLOT} not found on this device!'' [AInt slot]], Inr ())))"
  using has_id_nonempty[OF assms]
  by (cases "show_configured_sim (get_default entry (py ''sim1'') JNull)";
      cases "show_configured_sim (get_default entry (py ''sim2'') JNull)")
     (simp add: check_sim_slot_def io_seq_def io_bind_def io_print_def)

lemma sim_present_iff: "truthy (get_default entry k JNull) \<longleftrightarrow> spec_sim_present entry k"
  by (auto simp: get_default_def spec_sim_present_def split: option.splits)

lemma configuration_check_slot:
  assumes "device_ids_of devices = Inr ids" "\<exists>d \<in> set devices. spec_has_id d n"
  shows "\<exists>before entry after. devices = before @ JObj entry # after \<and>
      spec_has_id (JObj entry) n \<and> (\<forall>d \<in> set before. \<not> spec_has_id d n) \<and>
      (slot = 0 \<and> spec_sim_present entry (py ''sim1'') \<longrightarrow>
         configuration_check n slot devices =
           ([Print PLAIN ''\<newline>{=*60}'' [], Print PLAIN ''CONFIGURATION CHECK:'' [],
             Print OK ''Device ID {DEFAULT_DEVICE} EXISTS in the SMS server!'' [AInt n],
             Print PLAIN ''\<newline>Your configured device:'' [],
             Print PLAIN ''  Device ID: {DEFAULT_DEVICE}'' [AInt n],
             Print PLAIN ''  SIM Slot: {DEFAULT_SIM_SLOT} (0=First, 1=Second)'' [AInt slot]] @
            fst (show_configured_sim (get_default entry (py ''sim1'') JNull)),
            snd (show_configured_sim (get_default entry (py ''sim1'') JNull)))) \<and>
      (slot = 1 \<and> spec_sim_present entry (py ''sim2'') \<longrightarrow>
         configuration_check n slot devices =
           ([Print PLAIN ''\<newline>{=*60}'' [], Print PLAIN ''CONFIGURATION CHECK:'' [],
             Print OK ''Device ID {DEFAULT_DEVICE} EXISTS in the SMS server!'' [AInt n],
             Print PLAIN ''\<newline>Your configured device:'' [],
             Print PLAIN ''  Device ID: {DEFAULT_DEVICE}'' [AInt n],
             Print PLAIN ''  SIM Slot: {DEFAULT_SIM_SLOT} (0=First, 1=Second)'' [AInt slot]] @
            fst (show_configured_sim (get_default entry (py ''sim2'') JNull)),
            snd (show_configured_sim (get_default entry (py ''sim2'') JNull)))) \<and>
      (slot = 0 \<and> \<not> spec_sim_present entry (py ''sim1'') \<or>
       slot = 1 \<and> \<not> spec_sim_present entry (py ''sim2'') \<longrightarrow>
         configuration_check n slot devices =
           ([Print PLAIN ''\<newline>{=*60}'' [], Print PLAIN ''CONFIGURATION CHECK:'' [],
             Print OK ''Device ID {DEFAULT_DEVICE} EXISTS in the SMS server!'' [AInt n],
             Print PLAIN ''\<newline>Your configured device:'' [],
             Print PLAIN ''  Device ID: {DEFAULT_DEVICE}'' [AInt n],
             Print PLAIN ''  SIM Slot: {DEFAULT_SIM_SLOT} (0=First, 1=Second)'' [AInt slot],
             Print ERROR ''SIM Slot {DEFAULT_SIM_SLOT} not found on this device!'' [AInt slot]],
            Inr ()))"
proof -
  from configuration_check_found[OF assms, of slot] obtain before entry after where
    b: "devices = before @ JObj entry # after" "spec_has_id (JObj entry) n"
       "\<forall>d \<in> set before. \<not> spec_has_id d n"
       "configuration_check n slot devices =
        ([Print PLAIN ''\<newline>{=*60}'' [], Print PLAIN ''CONFIGURATION CHECK:'' [],
          Print OK ''Device ID {DEFAULT_DEVICE} EXISTS in the SMS server!'' [AInt n]] @
         fst (check_sim_slot n slot (JObj entry)),
         snd (check_sim_slot n slot (JObj entry)))"
    by blast
  note c = check_sim_slot_entry[OF b(2), of slot]
  have 1: "configuration_check n slot devices =
           ([Print PLAIN ''\<newline>{=*60}'' [], Print PLAIN ''CONFIGURATION CHECK:'' [],
             Print OK ''Device ID {DEFAULT_DEVICE} EXISTS in the SMS server!'' [AInt n],
             Print PLAIN ''\<newline>Your configured device:'' [],
             Print PLAIN ''  Device ID: {DEFAULT_DEVICE}'' [AInt n],
             Print PLAIN ''  SIM Slot: {DEFAULT_SIM_SLOT} (0=First, 1=Second)'' [AInt slot]] @
            fst (show_configured_sim (get_default entry (py ''sim1'') JNull)),
            snd (show_configured_sim (get_default entry (py ''sim1'') JNull)))"
    if "slot = 0 \<and> spec_sim_present entry (py ''sim1'')"
    unfolding b(4) c using that sim_present_iff[of entry "py ''sim1''"] by simp
  have 2: "configuration_check n slot devices =
           ([Print PLAIN ''\<newline>{=*60}'' [], Print PLAIN ''CONFIGURATION CHECK:'' [],
             Print OK ''Device ID {DEFAULT_DEVICE} EXISTS in the SMS server!'' [AInt n],
             Print PLAIN ''\<newline>Your configured device:'' [],
             Print PLAIN ''  Device ID: {DEFAULT_DEVICE}'' [AInt n],
             Print PLAIN ''  SIM Slot: {DEFAULT_SIM_SLOT} (0=First, 1=Second)'' [AInt slot]] @
            fst (show_configured_sim (get_default entry (py ''sim2'') JNull)),
            snd (show_configured_sim (get_default entry (py ''sim2'') JNull)))"
    if "slot = 1 \<and> spec_sim_present entry (py ''sim2'')"
    unfolding b(4) c using that sim_present_iff[of entry "py ''sim2''"] by simp
  have 3: "configuration_check n slot devices =
           ([Print PLAIN ''\<newline>{=*60}'' [], Print PLAIN ''CONFIGURATION CHECK:'' [],
             Print OK ''Device ID {DEFAULT_DEVICE} EXISTS in the SMS server!'' [AInt n],
             Print PLAIN ''\<newline>Your configured device:'' [],
             Print PLAIN ''  Device ID: {DEFAULT_DEVICE}'' [AInt n],
             Print PLAIN ''  SIM Slot: {DEFAULT_SIM_SLOT} (0=First, 1=Second)'' [AInt slot],
             Print ERROR ''SIM Slot {DEFAULT_SIM_SLOT} not found on this device!'' [AInt slot]],
            Inr ())"
    if "slot = 0 \<and> \<not> spec_sim_present entry (py ''sim1'') \<or>
        slot = 1 \<and> \<not> spec_sim_present entry (py ''sim2'')"
    unfolding b(4) c using that sim_present_iff[of entry "py ''sim1''"] sim_present_iff[of entry "py ''sim2''"]
    by auto
  show ?thesis using b(1,2,3) 1 2 3 by blast
qed

lemma show_configured_sim_dict:
  "show_configured_sim (JObj s) =
     ([Print PLAIN ''  SIM Number: {sim.get(number, N/A)}''
         [AJson (get_default s (py ''number'') (JStr (py ''N/A'')))],
       Print PLAIN ''  SIM Operator: {sim.get(operator, N/A)}''
         [AJson (get_default s (py ''operator'') (JStr (py ''N/A'')))]], Inr ())"
  by (simp add: show_configured_sim_def io_seq_def io_bind_def io_print_def)

lemma test_get_devices_checked:
  assumes "loads text = Some (JObj data)" "truthy (get_default data (py ''success'') JNull)"
    "get_default data (py ''data'') (JObj []) = JObj dd"
    "get_default dd (py ''devices'') (JArr []) = JArr devices"
    "snd (io_each show_device devices) = Inr ()"
    "snd (configuration_check DEFAULT_DEVICE DEFAULT_SIM_SLOT devices) = Inr ()"
  shows "test_get_devices loads (Response 200 text) =
     ([Print HEADER ''TEST 1: GET AVAILABLE DEVICES'' [],
       Print INFO ''Requesting: {url}'' [],
       Print INFO ''API Key: {API_KEY[:15]}...{API_KEY[-10:]}'' [],
       Print INFO ''Response Status: {response.status_code}'' [AInt 200],
       Print OK ''Successfully retrieved devices!'' [],
       Print PLAIN ''\<newline>Total Devices: {len(devices)}'' [ANat (length devices)]] @
      fst (io_each show_device devices) @
      fst (configuration_check DEFAULT_DEVICE DEFAULT_SIM_SLOT devices),
      Inr (Some (JArr devices)))"
proof -
  obtain o1 where 1: "io_each show_device devices = (o1, Inr ())"
    using assms(5) by (cases "io_each show_device devices") auto
  obtain o2 where 2: "configuration_check DEFAULT_DEVICE DEFAULT_SIM_SLOT devices = (o2, Inr ())"
    using assms(6) by (cases "configuration_check DEFAULT_DEVICE DEFAULT_SIM_SLOT devices") auto
  show ?thesis
    using assms(1-4) 1 2
    by (simp add: test_get_devices_def get_devices_body_def io_seq_def io_bind_def io_print_def
        io_return_def Let_def)
qed

text \<open>
  Claim C7. The configured device id is 2. For a device list whose entries are dicts:
  when some entry has the configured id, the check prints that the device exists and
  then, for the first such entry, validates the configured slot: with slot 0 and
  \<open>sim1\<close> present, or slot 1 and \<open>sim2\<close> present, it prints that SIM's number and
  operator; with the slot's SIM missing it prints the error \<open>SIM Slot ... not found\<close>
  and ends normally. When no entry has the configured id it prints \<open>NOT FOUND\<close> and the
  list of all ids, and ends normally. A check that ends normally lets
  \<open>test_get_devices\<close> return the devices.
\<close>

theorem configured_device_check:
  "DEFAULT_DEVICE = 2 \<and>
   (device_ids_of devices = Inr ids \<and> (\<exists>d \<in> set devices. spec_has_id d DEFAULT_DEVICE) \<longrightarrow>
      (\<exists>before entry after. devices = before @ JObj entry # after \<and>
         spec_has_id (JObj entry) DEFAULT_DEVICE \<and>
         (\<forall>d \<in> set before. \<not> spec_has_id d DEFAULT_DEVICE) \<and>
         (slot = 0 \<and> spec_sim_present entry (py ''sim1'') \<longrightarrow>
            configuration_check DEFAULT_DEVICE slot devices =
              ([Print PLAIN ''\<newline>{=*60}'' [], Print PLAIN ''CONFIGURATION CHECK:'' [],
                Print OK ''Device ID {DEFAULT_DEVICE} EXISTS in the SMS server!'' [AInt DEFAULT_DEVICE],
                Print PLAIN ''\<newline>Your configured device:'' [],
                Print PLAIN ''  Device ID: {DEFAULT_DEVICE}'' [AInt DEFAULT_DEVICE],
                Print PLAIN ''  SIM Slot: {DEFAULT_SIM_SLOT} (0=First, 1=Second)'' [AInt slot]] @
               fst (show_configured_sim (get_default entry (py ''sim1'') JNull)),
               snd (show_configured_sim (get_default entry (py ''sim1'') JNull)))) \<and>
         (slot = 1 \<and> spec_sim_present entry (py ''sim2'') \<longrightarrow>
            configuration_check DEFAULT_DEVICE slot devices =
              ([Print PLAIN ''\<newline>{=*60}'' [], Print PLAIN ''CONFIGURATION CHECK:'' [],
                Print OK ''Device ID {DEFAULT_DEVICE} EXISTS in the SMS server!'' [AInt DEFAULT_DEVICE],
                Print PLAIN ''\<newline>Your configured device:'' [],
                Print PLAIN ''  Device ID: {DEFAULT_DEVICE}'' [AInt DEFAULT_DEVICE],
                Print PLAIN ''  SIM Slot: {DEFAULT_SIM_SLOT} (0=First, 1=Second)'' [AInt slot]] @
               fst (show_configured_sim (get_default entry (py ''sim2'') JNull)),
               snd (show_configured_sim (get_default entry (py ''sim2'') JNull)))) \<and>
         (slot = 0 \<and> \<not> spec_sim_present entry (py ''sim1'') \<or>
          slot = 1 \<and> \<not> spec_sim_present entry (py ''sim2'') \<longrightarrow>
            configuration_check DEFAULT_DEVICE slot devices =
              ([Print PLAIN ''\<newline>{=*60}'' [], Print PLAIN ''CONFIGURATION CHECK:'' [],
                Print OK ''Device ID {DEFAULT_DEVICE} EXISTS in the SMS server!'' [AInt DEFAULT_DEVICE],
                Print PLAIN ''\<newline>Your configured device:'' [],
                Print PLAIN ''  Device ID: {DEFAULT_DEVICE}'' [AInt DEFAULT_DEVICE],
                Print PLAIN ''  SIM Slot: {DEFAULT_SIM_SLOT} (0=First, 1=Second)'' [AInt slot],
                Print ERROR ''SIM Slot {DEFAULT_SIM_SLOT} not found on this device!'' [AInt slot]],
               Inr ())))) \<and>
   show_configured_sim (JObj s) =
     ([Print PLAIN ''  SIM Number: {sim.get(number, N/A)}''
         [AJson (get_default s (py ''number'') (JStr (py ''N/A'')))],
       Print PLAIN ''  SIM Operator: {sim.get(operator, N/A)}''
         [AJson (get_default s (py ''operator'') (JStr (py ''N/A'')))]], Inr ()) \<and>
   (device_ids_of devices = Inr ids \<and> \<not> (\<exists>d \<in> set devices. spec_has_id d DEFAULT_DEVICE) \<longrightarrow>
      configuration_check DEFAULT_DEVICE slot devices =
        ([Print PLAIN ''\<newline>{=*60}'' [], Print PLAIN ''CONFIGURATION CHECK:'' [],
          Print ERROR ''Device ID {DEFAULT_DEVICE} NOT FOUND!'' [AInt DEFAULT_DEVICE],
          Print PLAIN ''Available device IDs: {device_ids}'' [AJsons ids]], Inr ())) \<and>
   (loads text = Some (JObj data) \<and> truthy (get_default data (py ''success'') JNull) \<and>
    get_default data (py ''data'') (JObj []) = JObj dd \<and>
    get_default dd (py ''devices'') (JArr []) = JArr devices \<and>
    snd (io_each show_device devices) = Inr () \<and>
    snd (configuration_check DEFAULT_DEVICE DEFAULT_SIM_SLOT devices) = Inr () \<longrightarrow>
      test_get_devices loads (Response 200 text) =
        ([Print HEADER ''TEST 1: GET AVAILABLE DEVICES'' [],
          Print INFO ''Requesting: {url}'' [],
          Print INFO ''API Key: {API_KEY[:15]}...{API_KEY[-10:]}'' [],
          Print INFO ''Response Status: {response.status_code}'' [AInt 200],
          Print OK ''Successfully retrieved devices!'' [],
          Print PLAIN ''\<newline>Total Devices: {len(devices)}'' [ANat (length devices)]] @
         fst (io_each show_device devices) @
         fst (configuration_check DEFAULT_DEVICE DEFAULT_SIM_SLOT devices),
         Inr (Some (JArr devices))))"
proof (intro conjI impI)
  show "DEFAULT_DEVICE = 2" by (simp add: DEFAULT_DEVICE_def)
  show "show_configured_sim (JObj s) =
     ([Print PLAIN ''  SIM Number: {sim.get(number, N/A)}''
         [AJson (get_default s (py ''number'') (JStr (py ''N/A'')))],
       Print PLAIN ''  SIM Operator: {sim.get(operator, N/A)}''
         [AJson (get_default s (py ''operator'') (JStr (py ''N/A'')))]], Inr ())"
    by (rule show_configured_sim_dict)
next
  assume "device_ids_of devices = Inr ids \<and> (\<exists>d \<in> set devices. spec_has_id d DEFAULT_DEVICE)"
  then have a: "device_ids_of devices = Inr ids" and b: "\<exists>d \<in> set devices. spec_has_id d DEFAULT_DEVICE"
    by auto
  from configuration_check_slot[OF a b, of slot]
  show "\<exists>before entry after. devices = before @ JObj entry # after \<and>
         spec_has_id (JObj entry) DEFAULT_DEVICE \<and>
         (\<forall>d \<in> set before. \<not> spec_has_id d DEFAULT_DEVICE) \<and>
         (slot = 0 \<and> spec_sim_present entry (py ''sim1'') \<longrightarrow>
            configuration_check DEFAULT_DEVICE slot devices =
              ([Print PLAIN ''\<newline>{=*60}'' [], Print PLAIN ''CONFIGURATION CHECK:'' [],
                Print OK ''Device ID {DEFAULT_DEVICE} EXISTS in the SMS server!'' [AInt DEFAULT_DEVICE],
                Print PLAIN ''\<newline>Your configured device:'' [],
                Print PLAIN ''  Device ID: {DEFAULT_DEVICE}'' [AInt DEFAULT_DEVICE],
                Print PLAIN ''  SIM Slot: {DEFAULT_SIM_SLOT} (0=First, 1=Second)'' [AInt slot]] @
               fst (show_configured_sim (get_default entry (py ''sim1'') JNull)),
               snd (show_configured_sim (get_default entry (py ''sim1'') JNull)))) \<and>
         (slot = 1 \<and> spec_sim_present entry (py ''sim2'') \<longrightarrow>
            configuration_check DEFAULT_DEVICE slot devices =
              ([Print PLAIN ''\<newline>{=*60}'' [], Print PLAIN ''CONFIGURATION CHECK:'' [],
                Print OK ''Device ID {DEFAULT_DEVICE} EXISTS in the SMS server!'' [AInt DEFAULT_DEVICE],
                Print PLAIN ''\<newline>Your configured device:'' [],
                Print PLAIN ''  Device ID: {DEFAULT_DEVICE}'' [AInt DEFAULT_DEVICE],
                Print PLAIN ''  SIM Slot: {DEFAULT_SIM_SLOT} (0=First, 1=Second)'' [AInt slot]] @
               fst (show_configured_sim (get_default entry (py ''sim2'') JNull)),
               snd (show_configured_sim (get_default entry (py ''sim2'') JNull)))) \<and>
         (slot = 0 \<and> \<not> spec_sim_present entry (py ''sim1'') \<or>
          slot = 1 \<and> \<not> spec_sim_present entry (py ''sim2'') \<longrightarrow>
            configuration_check DEFAULT_DEVICE slot devices =
              ([Print PLAIN ''\<newline>{=*60}'' [], Print PLAIN ''CONFIGURATION CHECK:'' [],
                Print OK ''Device ID {DEFAULT_DEVICE} EXISTS in the SMS server!'' [AInt DEFAULT_DEVICE],
                Print PLAIN ''\<newline>Your configured device:'' [],
                Print PLAIN ''  Device ID: {DEFAULT_DEVICE}'' [AInt DEFAULT_DEVICE],
                Print PLAIN ''  SIM Slot: {DEFAULT_SIM_SLOT} (0=First, 1=Second)'' [AInt slot],
                Print ERROR ''SIM Slot {DEFAULT_SIM_SLOT} not found on this device!'' [AInt slot]],
               Inr ()))" .
next
  assume "device_ids_of devices = Inr ids \<and> \<not> (\<exists>d \<in> set devices. spec_has_id d DEFAULT_DEVICE)"
  then show "configuration_check DEFAULT_DEVICE slot devices =
        ([Print PLAIN ''\<newline>{=*60}'' [], Print PLAIN ''CONFIGURATION CHECK:'' [],
          Print ERROR ''Device ID {DEFAULT_DEVICE} NOT FOUND!'' [AInt DEFAULT_DEVICE],
          Print PLAIN ''Available device IDs: {device_ids}'' [AJsons ids]], Inr ())"
    using configuration_check_not_found by blast
next
  assume "loads text = Some (JObj data) \<and> truthy (get_default data (py ''success'') JNull) \<and>
    get_default data (py ''data'') (JObj []) = JObj dd \<and>
    get_default dd (py ''devices'') (JArr []) = JArr devices \<and>
    snd (io_each show_device devices) = Inr () \<and>
    snd (configuration_check DEFAULT_DEVICE DEFAULT_SIM_SLOT devices) = Inr ()"
  then show "test_get_devices loads (Response 200 text) =
        ([Print HEADER ''TEST 1: GET AVAILABLE DEVICES'' [],
          Print INFO ''Requesting: {url}'' [],
          Print INFO ''API Key: {API_KEY[:15]}...{API_KEY[-10:]}'' [],
          Print INFO ''Response Status: {response.status_code}'' [AInt 200],
          Print OK ''Successfully retrieved devices!'' [],
          Print PLAIN ''\<newline>Total Devices: {len(devices)}'' [ANat (length devices)]] @
         fst (io_each show_device devices) @
         fst (configuration_check DEFAULT_DEVICE DEFAULT_SIM_SLOT devices),
         Inr (Some (JArr devices)))"
    using test_get_devices_checked by blast
qed

text \<open>Device 2 listed second with a first SIM only, checked for the configured slot
  1; and a list where the id 2 appears only as the string \<open>"2"\<close>.\<close>

theorem configured_device_check_witness:
  "configuration_check DEFAULT_DEVICE DEFAULT_SIM_SLOT
      [JObj [(py ''id'', JInt 1)],
       JObj [(py ''id'', JInt 2), (py ''sim1'', JObj [(py ''number'', JStr (py ''0917''))])]] =
     ([Print PLAIN ''\<newline>{=*60}'' [], Print PLAIN ''CONFIGURATION CHECK:'' [],
       Print OK ''Device ID {DEFAULT_DEVICE} EXISTS in the SMS server!'' [AInt DEFAULT_DEVICE],
       Print PLAIN ''\<newline>Your configured device:'' [],
       Print PLAIN ''  Device ID: {DEFAULT_DEVICE}'' [AInt DEFAULT_DEVICE],
       Print PLAIN ''  SIM Slot: {DEFAULT_SIM_SLOT} (0=First, 1=Second)'' [AInt DEFAULT_SIM_SLOT],
       Print ERROR ''SIM Slot {DEFAULT_SIM_SLOT} not found on this device!'' [AInt DEFAULT_SIM_SLOT]],
      Inr ()) \<and>
   configuration_check DEFAULT_DEVICE DEFAULT_SIM_SLOT
      [JObj [(py ''id'', JInt 1)], JObj [(py ''id'', JStr (py ''2''))]] =
     ([Print PLAIN ''\<newline>{=*60}'' [], Print PLAIN ''CONFIGURATION CHECK:'' [],
       Print ERROR ''Device ID {DEFAULT_DEVICE} NOT FOUND!'' [AInt DEFAULT_DEVICE],
       Print PLAIN ''Available device IDs: {device_ids}'' [AJsons [JInt 1, JStr (py ''2'')]]], Inr ())"
proof -
  let ?e1 = "[(py ''id'', JInt 1)]"
  let ?e2 = "[(py ''id'', JInt 2), (py ''sim1'', JObj [(py ''number'', JStr (py ''0917''))])]"
  let ?e3 = "[(py ''id'', JStr (py ''2''))]"
  have i1: "device_ids_of [JObj ?e1, JObj ?e2] = Inr [JInt 1, JInt 2]"
    by (simp add: get_default_def)
  have n1: "\<not> spec_has_id (JObj ?e1) DEFAULT_DEVICE"
    by (simp add: spec_has_id_def get_default_def DEFAULT_DEVICE_def)
  have h2: "spec_has_id (JObj ?e2) DEFAULT_DEVICE"
    by (simp add: spec_has_id_def get_default_def DEFAULT_DEVICE_def)
  have n3: "\<not> spec_has_id (JObj ?e3) DEFAULT_DEVICE"
    by (simp add: spec_has_id_def get_default_def DEFAULT_DEVICE_def)
  have s2: "\<not> spec_sim_present ?e2 (py ''sim2'')"
    by (simp add: spec_sim_present_def)
  have slot: "DEFAULT_SIM_SLOT = 1" by (simp add: DEFAULT_SIM_SLOT_def)
  have ex: "\<exists>d \<in> set [JObj ?e1, JObj ?e2]. spec_has_id d DEFAULT_DEVICE" using h2 by simp
  from configured_device_check[of "[JObj ?e1, JObj ?e2]" "[JInt 1, JInt 2]" DEFAULT_SIM_SLOT,
      THEN conjunct2, THEN conjunct1] i1 ex
  obtain before entry after where
    d: "[JObj ?e1, JObj ?e2] = before @ JObj entry # after"
      and h: "spec_has_id (JObj entry) DEFAULT_DEVICE"
      and b: "\<forall>d \<in> set before. \<not> spec_has_id d DEFAULT_DEVICE"
      and c: "DEFAULT_SIM_SLOT = 1 \<and> \<not> spec_sim_present entry (py ''sim2'') \<longrightarrow>
        configuration_check DEFAULT_DEVICE DEFAULT_SIM_SLOT [JObj ?e1, JObj ?e2] =
     ([Print PLAIN ''\<newline>{=*60}'' [], Print PLAIN ''CONFIGURATION CHECK:'' [],
       Print OK ''Device ID {DEFAULT_DEVICE} EXISTS in the SMS server!'' [AInt DEFAULT_DEVICE],
       Print PLAIN ''\<newline>Your configured device:'' [],
       Print PLAIN ''  Device ID: {DEFAULT_DEVICE}'' [AInt DEFAULT_DEVICE],
       Print PLAIN ''  SIM Slot: {DEFAULT_SIM_SLOT} (0=First, 1=Second)'' [AInt DEFAULT_SIM_SLOT],
       Print ERROR ''SIM Slot {DEFAULT_SIM_SLOT} not found on this device!'' [AInt DEFAULT_SIM_SLOT]],
      Inr ())"
    by blast
  have "entry = ?e2"
  proof (cases before)
    case Nil
    then have "entry = ?e1" using d by simp
    then show ?thesis using h n1 by simp
  next
    case (Cons x xs)
    then have "x = JObj ?e1" and "[JObj ?e2] = xs @ JObj entry # after" using d by simp_all
    then show ?thesis by (cases xs) simp_all
  qed
  then have 1: "configuration_check DEFAULT_DEVICE DEFAULT_SIM_SLOT [JObj ?e1, JObj ?e2] =
     ([Print PLAIN ''\<newline>{=*60}'' [], Print PLAIN ''CONFIGURATION CHECK:'' [],
       Print OK ''Device ID {DEFAULT_DEVICE} EXISTS in the SMS server!'' [AInt DEFAULT_DEVICE],
       Print PLAIN ''\<newline>Your configured device:'' [],
       Print PLAIN ''  Device ID: {DEFAULT_DEVICE}'' [AInt DEFAULT_DEVICE],
       Print PLAIN ''  SIM Slot: {DEFAULT_SIM_SLOT} (0=First, 1=Second)'' [AInt DEFAULT_SIM_SLOT],
       Print ERROR ''SIM Slot {DEFAULT_SIM_SLOT} not found on this device!'' [AInt DEFAULT_SIM_SLOT]],
      Inr ())"
    using c s2 slot by blast
  have i2: "device_ids_of [JObj ?e1, JObj ?e3] = Inr [JInt 1, JStr (py ''2'')]"
    by (simp add: get_default_def)
  have 2: "configuration_check DEFAULT_DEVICE DEFAULT_SIM_SLOT [JObj ?e1, JObj ?e3] =
     ([Print PLAIN ''\<newline>{=*60}'' [], Print PLAIN ''CONFIGURATION CHECK:'' [],
       Print ERROR ''Device ID {DEFAULT_DEVICE} NOT FOUND!'' [AInt DEFAULT_DEVICE],
       Print PLAIN ''Available device IDs: {device_ids}'' [AJsons [JInt 1, JStr (py ''2'')]]], Inr ())"
  proof -
    have nx: "\<not> (\<exists>d \<in> set [JObj ?e1, JObj ?e3]. spec_has_id d DEFAULT_DEVICE)" using n1 n3 by simp
    from configured_device_check[of "[JObj ?e1, JObj ?e3]" "[JInt 1, JStr (py ''2'')]" DEFAULT_SIM_SLOT,
      THEN conjunct2, THEN conjunct2, THEN conjunct2, THEN conjunct1] i2 nx
    show ?thesis by blast
  qed
  show ?thesis using 1 2 by blast
qed

section \<open>The analyzer's reading of \<open>.env\<close>\<close>

lemma foldl_env_line_no_entries:
  "\<forall>l \<in> set ls. \<forall>k v. \<not> spec_env_entry l k v \<Longrightarrow> foldl env_line c ls = c"
  by (induction ls arbitrary: c) (simp_all add: env_line_no_entry)

lemma update_nonempty: "AList.update k v c \<noteq> []"
  by (cases c) auto

lemma env_line_nonempty: "c \<noteq> [] \<Longrightarrow> env_line c l \<noteq> []"
  by (auto simp: env_line_def Let_def update_nonempty split: prod.splits)

lemma foldl_env_line_nonempty: "c \<noteq> [] \<Longrightarrow> foldl env_line c ls \<noteq> []"
  by (induction ls arbitrary: c) (simp_all add: env_line_nonempty)

lemma env_line_entry_nonempty: "spec_env_entry l k v \<Longrightarrow> env_line c l \<noteq> []"
proof -
  assume "spec_env_entry l k v"
  then have "map_of (env_line c l) k = Some v" using env_line_entry by simp
  then show ?thesis by auto
qed

lemma foldl_env_line_some_entry:
  "\<exists>l \<in> set ls. \<exists>k v. spec_env_entry l k v \<Longrightarrow> foldl env_line c ls \<noteq> []"
proof (induction ls arbitrary: c)
  case Nil
  then show ?case by simp
next
  case (Cons l ls)
  show ?case
  proof (cases "\<exists>k v. spec_env_entry l k v")
    case True
    then have "env_line c l \<noteq> []" using env_line_entry_nonempty by blast
    then show ?thesis using foldl_env_line_nonempty by simp
  next
    case False
    then have "\<exists>l \<in> set ls. \<exists>k v. spec_env_entry l k v" using Cons.prems by auto
    then show ?thesis using Cons.IH by simp
  qed
qed

lemma no_entry_iff: "(\<forall>k v. \<not> spec_env_entry l k v) \<longleftrightarrow> env_line [] l = []"
  using env_line_no_entry[of l "[]"] env_line_entry_nonempty[of l _ _ "[]"] by blast

text \<open>
  Claim C10. A \<open>.env\<close> file that exists and in which no line contributes a key makes
  the analyzer's \<open>read_env_file\<close> return the empty dict; \<open>analyze_sms_configuration\<close>
  then prints \<open>Failed to read .env file\<close> and returns \<open>None\<close>, as it does for a missing
  file (where \<open>read_env_file\<close> has also printed that the file was not found). A file in
  which some line contributes a key is analysed.
\<close>

theorem keyless_env_file_is_a_read_failure:
  "((\<forall>l \<in> set (read_lines content). \<forall>k v. \<not> spec_env_entry l k v) \<longrightarrow>
      read_env_file_analyzer env_path (Some content) = ([], Some []) \<and>
      analyze_sms_configuration (Some content) =
        ([Print HEADER ''SMS CONFIGURATION ANALYSIS'' [],
          Print ERROR ''Failed to read .env file'' []], None)) \<and>
   analyze_sms_configuration None =
     ([Print HEADER ''SMS CONFIGURATION ANALYSIS'' [],
       Print ERROR ''.env file not found at: {env_path}'' [AStr (py ''.env'')],
       Print ERROR ''Failed to read .env file'' []], None) \<and>
   ((\<exists>l \<in> set (read_lines content). \<exists>k v. spec_env_entry l k v) \<longrightarrow>
      (\<exists>sms_config. snd (analyze_sms_configuration (Some content)) = Some sms_config))"
proof (intro conjI impI)
  assume n: "\<forall>l \<in> set (read_lines content). \<forall>k v. \<not> spec_env_entry l k v"
  then have e: "parse_env content = []"
    by (simp add: parse_env_def foldl_env_line_no_entries)
  then show "read_env_file_analyzer env_path (Some content) = ([], Some [])"
    by (simp add: read_env_file_analyzer_def)
  show "analyze_sms_configuration (Some content) =
        ([Print HEADER ''SMS CONFIGURATION ANALYSIS'' [],
          Print ERROR ''Failed to read .env file'' []], None)"
    using e by (simp add: analyze_sms_configuration_def read_env_file_analyzer_def)
next
  show "analyze_sms_configuration None =
     ([Print HEADER ''SMS CONFIGURATION ANALYSIS'' [],
       Print ERROR ''.env file not found at: {env_path}'' [AStr (py ''.env'')],
       Print ERROR ''Failed to read .env file'' []], None)"
    by (simp add: analyze_sms_configuration_def read_env_file_analyzer_def)
next
  assume "\<exists>l \<in> set (read_lines content). \<exists>k v. spec_env_entry l k v"
  then have "parse_env content \<noteq> []"
    by (simp add: parse_env_def foldl_env_line_some_entry)
  then obtain kv kvs where "parse_env content = kv # kvs" by (cases "parse_env content") auto
  then show "\<exists>sms_config. snd (analyze_sms_configuration (Some content)) = Some sms_config"
    by (simp add: analyze_sms_configuration_def read_env_file_analyzer_def Let_def)
qed

text \<open>A file with a comment, an empty line and a line without \<open>=\<close>; and a file with
  one key.\<close>

theorem keyless_env_file_is_a_read_failure_witness:
  "analyze_sms_configuration (Some (py ''# SMS_API_KEY=abc\<newline>\<newline>SMS_SERVER_URL\<newline>'')) =
     ([Print HEADER ''SMS CONFIGURATION ANALYSIS'' [],
       Print ERROR ''Failed to read .env file'' []], None) \<and>
   (\<exists>sms_config. snd (analyze_sms_configuration (Some (py ''SMS_API_KEY=abc''))) = Some sms_config)"
proof -
  let ?c = "py ''# SMS_API_KEY=abc\<newline>\<newline>SMS_SERVER_URL\<newline>''"
  have l: "read_lines ?c = [py ''# SMS_API_KEY=abc\<newline>'', py ''\<newline>'', py ''SMS_SERVER_URL\<newline>'']"
    by (simp add: read_lines_def)
  have n: "\<forall>l \<in> set (read_lines ?c). \<forall>k v. \<not> spec_env_entry l k v"
    unfolding l no_entry_iff by (simp add: env_eval)
  have 1: "analyze_sms_configuration (Some ?c) =
     ([Print HEADER ''SMS CONFIGURATION ANALYSIS'' [],
       Print ERROR ''Failed to read .env file'' []], None)"
    using n keyless_env_file_is_a_read_failure[of ?c] by blast
  have "\<not> (\<forall>k v. \<not> spec_env_entry (py ''SMS_API_KEY=abc'') k v)"
    unfolding no_entry_iff by (simp add: env_eval)
  moreover have "read_lines (py ''SMS_API_KEY=abc'') = [py ''SMS_API_KEY=abc'']"
    by (simp add: read_lines_def)
  ultimately have "\<exists>l \<in> set (read_lines (py ''SMS_API_KEY=abc'')). \<exists>k v. spec_env_entry l k v"
    by auto
  then have 2: "\<exists>sms_config. snd (analyze_sms_configuration (Some (py ''SMS_API_KEY=abc''))) = Some sms_config"
    using keyless_env_file_is_a_read_failure[of "py ''SMS_API_KEY=abc''"] by blast
  show ?thesis using 1 2 by blast
qed

section \<open>Response bodies that are not JSON\<close>





section \<open>The entry points\<close>

text \<open>
  Claim C5, as amended. In \<open>test_sms_api.py\<close> and \<open>analyze_sms_config.py\<close> an
  interruption is caught at the top level: a notice is printed and the process ends
  with status 0; every other exception that is an \<open>Exception\<close> is caught, printed with
  its traceback, and the process ends with status 1. \<open>test_places_api.py\<close> has no
  handler at its top level: a \<open>SystemExit\<close> gives its status, and any other exception
  that escapes \<open>main\<close>, an interruption included, ends the process as a crash.
\<close>

theorem top_level_handlers:
  "sms_tester_entry (Some KeyboardInterrupt) =
     ([Print PLAIN ''\<newline>\<newline>Test interrupted by user'' []], Exited 0 None) \<and>
   analyzer_entry (Some KeyboardInterrupt) =
     ([Print PLAIN ''\<newline>\<newline>Analysis interrupted by user'' []], Exited 0 None) \<and>
   (is_Exception e \<longrightarrow>
      sms_tester_entry (Some e) =
        ([Print ERROR ''Unexpected error: {str(e)}'' [AExn e], Traceback e], Exited 1 None) \<and>
      analyzer_entry (Some e) =
        ([Print PLAIN ''[ERROR] Unexpected error: {str(e)}'' [AExn e], Traceback e], Exited 1 None)) \<and>
   sms_tester_entry None = ([], Exited 0 None) \<and>
   analyzer_entry None = ([], Exited 0 None) \<and>
   places_entry None = ([], Exited 0 None) \<and>
   places_entry (Some (SystemExit a)) = ([], interpreter (Some (SystemExit a))) \<and>
   ((\<forall>a. e \<noteq> SystemExit a) \<longrightarrow> places_entry (Some e) = ([], Crashed e))"
proof (intro conjI impI)
  show "sms_tester_entry (Some KeyboardInterrupt) =
     ([Print PLAIN ''\<newline>\<newline>Test interrupted by user'' []], Exited 0 None)"
    by (simp add: sms_tester_entry_def)
  show "analyzer_entry (Some KeyboardInterrupt) =
     ([Print PLAIN ''\<newline>\<newline>Analysis interrupted by user'' []], Exited 0 None)"
    by (simp add: analyzer_entry_def)
  show "sms_tester_entry None = ([], Exited 0 None)" by (simp add: sms_tester_entry_def)
  show "analyzer_entry None = ([], Exited 0 None)" by (simp add: analyzer_entry_def)
  show "places_entry None = ([], Exited 0 None)" by (simp add: places_entry_def)
  show "places_entry (Some (SystemExit a)) = ([], interpreter (Some (SystemExit a)))"
    by (simp add: places_entry_def)
next
  assume "is_Exception e"
  then show "sms_tester_entry (Some e) =
        ([Print ERROR ''Unexpected error: {str(e)}'' [AExn e], Traceback e], Exited 1 None)"
    by (cases e) (simp_all add: sms_tester_entry_def)
next
  assume "is_Exception e"
  then show "analyzer_entry (Some e) =
        ([Print PLAIN ''[ERROR] Unexpected error: {str(e)}'' [AExn e], Traceback e], Exited 1 None)"
    by (cases e) (simp_all add: analyzer_entry_def)
next
  assume "\<forall>a. e \<noteq> SystemExit a"
  then show "places_entry (Some e) = ([], Crashed e)"
    by (cases e) (simp_all add: places_entry_def)
qed

text \<open>An \<open>AttributeError\<close> in the tester, an \<open>EOFError\<close> from \<open>input()\<close> in the
  analyzer, a timeout in the Places tester.\<close>

theorem top_level_handlers_witness:
  "sms_tester_entry (Some AttributeError) =
     ([Print ERROR ''Unexpected error: {str(e)}'' [AExn AttributeError], Traceback AttributeError],
      Exited 1 None) \<and>
   analyzer_entry (Some (OtherException ''EOFError'')) =
     ([Print PLAIN ''[ERROR] Unexpected error: {str(e)}'' [AExn (OtherException ''EOFError'')],
       Traceback (OtherException ''EOFError'')], Exited 1 None) \<and>
   places_entry (Some Timeout) = ([], Crashed Timeout)"
  using top_level_handlers[of AttributeError] top_level_handlers[of "OtherException ''EOFError''"]
    top_level_handlers[of Timeout]
  by simp

text \<open>
  The claim as stated fails for \<open>test_places_api.py\<close>: an interruption is not caught,
  no notice is printed and the process does not end with status 0.
\<close>

theorem places_interrupt_not_caught_counterexample:
  "places_entry (Some KeyboardInterrupt) = ([], Crashed KeyboardInterrupt) \<and>
   snd (places_entry (Some KeyboardInterrupt)) \<noteq> Exited 0 None \<and>
   places_entry (Some AttributeError) = ([], Crashed AttributeError)"
  by (simp add: places_entry_def)

end
